theory Spec2Isabelle
  imports Main "HOL-Library.Sublist"
begin

section \<open>Python strings\<close>

text \<open>
  The client of \<^verbatim>\<open>kite_mcp_client.py\<close> parses its payloads with four string
  operations of Python: \<^verbatim>\<open>sub in s\<close>, \<^verbatim>\<open>s.split(sep)\<close>, indexing of the resulting
  list and \<^verbatim>\<open>s.strip()\<close>. A Python string is modelled as a \<^typ>\<open>string\<close>, one
  \<^typ>\<open>char\<close> per code point (code points below 256).
\<close>

text \<open>
  \<^verbatim>\<open>s.partition(sep)\<close> at the first occurrence of \<open>sep\<close>, scanning from the left:
  the text before it and the text after it, or \<open>None\<close> when \<open>sep\<close> does not occur.
\<close>

fun partition_str :: "string \<Rightarrow> string \<Rightarrow> (string \<times> string) option" where
  "partition_str sep [] = (if sep = [] then Some ([], []) else None)"
| "partition_str sep (c # cs) =
     (if prefix sep (c # cs) then Some ([], drop (length sep) (c # cs))
      else (case partition_str sep cs of
              None \<Rightarrow> None
            | Some (a, b) \<Rightarrow> Some (c # a, b)))"

text \<open>\<^verbatim>\<open>sub in s\<close> for two strings.\<close>

definition str_in :: "string \<Rightarrow> string \<Rightarrow> bool" where
  "str_in sub s = (partition_str sub s \<noteq> None)"

text \<open>
  \<^verbatim>\<open>s.split(sep)\<close> for a non-empty separator: the pieces between the successive
  occurrences of \<open>sep\<close>, found from the left without overlap. Python raises ValueError on
  an empty separator; the client only splits on the literals \<^verbatim>\<open>"URL: "\<close>,
  \<^verbatim>\<open>"\n"\<close>, \<^verbatim>\<open>"session_id="\<close> and \<^verbatim>\<open>"&"\<close>, and the model returns the
  whole string as the single piece in that case.
\<close>

function split_str :: "string \<Rightarrow> string \<Rightarrow> string list" where
  "split_str sep s =
     (if sep = [] then [s]
      else (case partition_str sep s of
              None \<Rightarrow> [s]
            | Some (a, b) \<Rightarrow> a # split_str sep b))"
  by pat_completeness auto
termination
proof (relation "measure (\<lambda>(sep, s). length s)")
  show "wf (measure (\<lambda>(sep :: string, s :: string). length s))"
    by simp
next
  fix sep s :: string and p :: "string \<times> string" and a b :: string
  assume sep: "sep \<noteq> []" and found: "partition_str sep s = Some p" and p: "(a, b) = p"
  have "partition_str sep s = Some (a', b') \<Longrightarrow> length b' + length sep \<le> length s" for a' b'
  proof (induction s arbitrary: a')
    case Nil
    then show ?case by (simp split: if_splits)
  next
    case (Cons c cs)
    show ?case
    proof (cases "prefix sep (c # cs)")
      case True
      with Cons.prems have "b' = drop (length sep) (c # cs)"
        by simp
      moreover from True have "length sep \<le> length (c # cs)"
        by (rule prefix_length_le)
      ultimately show ?thesis
        by simp
    next
      case False
      with Cons.prems obtain a1 where "partition_str sep cs = Some (a1, b')"
        by (auto split: option.splits)
      from Cons.IH [OF this] show ?thesis
        by simp
    qed
  qed
  with sep found p have "length b < length s"
    by (cases sep) fastforce+
  then show "((sep, b), (sep, s)) \<in> measure (\<lambda>(sep, s). length s)"
    by simp
qed

declare split_str.simps [simp del]

text \<open>
  The text of \<open>s\<close> before the first occurrence of \<open>sep\<close>, all of \<open>s\<close> when
  \<open>sep\<close> does not occur: what \<^verbatim>\<open>s.split(sep)[0]\<close> is.
\<close>

definition before_first :: "string \<Rightarrow> string \<Rightarrow> string" where
  "before_first sep s = (case partition_str sep s of None \<Rightarrow> s | Some (a, b) \<Rightarrow> a)"

text \<open>
  \<^verbatim>\<open>str.isspace\<close> on the code points below 256: the characters that \<^verbatim>\<open>strip()\<close>
  removes from both ends.
\<close>

definition isspace :: "char \<Rightarrow> bool" where
  "isspace c = (of_char c \<in> {9, 10, 11, 12, 13, 28, 29, 30, 31, 32, 133, 160 :: nat})"

definition strip :: "string \<Rightarrow> string" where
  "strip s = rev (dropWhile isspace (rev (dropWhile isspace s)))"

text \<open>
  \<^verbatim>\<open>str(n)\<close> for an integer, as the f-strings of the client render a status code or
  an age: decimal digits, with a minus sign for a negative number.
\<close>

definition digit_char :: "nat \<Rightarrow> char" where
  "digit_char d = char_of (48 + d)"

function str_nat :: "nat \<Rightarrow> string" where
  "str_nat n = (if n < 10 then [digit_char n] else str_nat (n div 10) @ [digit_char (n mod 10)])"
  by pat_completeness auto
termination
  by (relation "measure (\<lambda>n. n)") auto

declare str_nat.simps [simp del]

definition str_int :: "int \<Rightarrow> string" where
  "str_int i = (if i < 0 then CHR ''-'' # str_nat (nat (- i)) else str_nat (nat i))"

section \<open>Exceptions and decoded JSON\<close>

text \<open>
  The exceptions that are instances of Python's \<^verbatim>\<open>Exception\<close>, each with the text
  that \<^verbatim>\<open>str(e)\<close> gives. \<open>TransportError\<close> stands for what the HTTP session raises
  (connection failure, timeout), \<open>DecodeError\<close> for what \<^verbatim>\<open>response.json()\<close> raises.
  The texts of the interpreter's own errors are those of CPython 3.11; \<open>quoted\<close>
  puts a name between single quotes, as these texts do.
\<close>

datatype exn =
    TypeError string
  | AttributeError string
  | KeyError string
  | IndexError string
  | TransportError string
  | DecodeError string

definition quoted :: "string \<Rightarrow> string" where
  "quoted s = CHR 0x27 # s @ [CHR 0x27]"

fun str_exn :: "exn \<Rightarrow> string" where
  "str_exn (TypeError m) = m"
| "str_exn (AttributeError m) = m"
| "str_exn (KeyError m) = m"
| "str_exn (IndexError m) = m"
| "str_exn (TransportError m) = m"
| "str_exn (DecodeError m) = m"

text \<open>Sequencing of two steps, the first of which may raise.\<close>

definition and_then :: "exn + 'a \<Rightarrow> ('a \<Rightarrow> exn + 'b) \<Rightarrow> exn + 'b" where
  "and_then m f = (case m of Inl e \<Rightarrow> Inl e | Inr v \<Rightarrow> f v)"

text \<open>\<^verbatim>\<open>xs[i]\<close> for a list and a literal index \<open>i \<ge> 0\<close>: IndexError out of range.\<close>

definition getitem_list :: "'a list \<Rightarrow> nat \<Rightarrow> exn + 'a" where
  "getitem_list xs i =
     (if i < length xs then Inr (xs ! i) else Inl (IndexError ''list index out of range''))"

text \<open>
  What \<^verbatim>\<open>json.loads\<close> produces. A dict is the list of its items (looked up with
  \<^const>\<open>map_of\<close>); the type \<open>'f\<close> stands for Python's floats, whose values the client
  passes on and never inspects.
\<close>

datatype 'f json =
    JNull
  | JBool bool
  | JInt int
  | JFloat 'f
  | JStr string
  | JList "'f json list"
  | JDict "(string \<times> 'f json) list"

fun type_name :: "'f json \<Rightarrow> string" where
  "type_name JNull = ''NoneType''"
| "type_name (JBool b) = ''bool''"
| "type_name (JInt i) = ''int''"
| "type_name (JFloat x) = ''float''"
| "type_name (JStr s) = ''str''"
| "type_name (JList xs) = ''list''"
| "type_name (JDict kvs) = ''dict''"

text \<open>\<^verbatim>\<open>k in v\<close> for a string literal \<open>k\<close> and a decoded value \<open>v\<close>.\<close>

fun py_in :: "string \<Rightarrow> 'f json \<Rightarrow> exn + bool" where
  "py_in k (JDict kvs) = Inr (map_of kvs k \<noteq> None)"
| "py_in k (JList xs) = Inr (JStr k \<in> set xs)"
| "py_in k (JStr s) = Inr (str_in k s)"
| "py_in k v =
     Inl (TypeError (''argument of type '' @ quoted (type_name v) @ '' is not iterable''))"

text \<open>\<^verbatim>\<open>v[k]\<close> for a string literal \<open>k\<close>.\<close>

fun py_getitem :: "'f json \<Rightarrow> string \<Rightarrow> exn + 'f json" where
  "py_getitem (JDict kvs) k =
     (case map_of kvs k of None \<Rightarrow> Inl (KeyError (quoted k)) | Some v \<Rightarrow> Inr v)"
| "py_getitem (JList xs) k = Inl (TypeError ''list indices must be integers or slices, not str'')"
| "py_getitem (JStr s) k =
     Inl (TypeError (''string indices must be integers, not '' @ quoted ''str''))"
| "py_getitem v k = Inl (TypeError (quoted (type_name v) @ '' object is not subscriptable''))"

text \<open>\<^verbatim>\<open>v.get(k, default)\<close>: a method of dicts only.\<close>

fun py_get :: "'f json \<Rightarrow> string \<Rightarrow> 'f json \<Rightarrow> exn + 'f json" where
  "py_get (JDict kvs) k d = Inr (case map_of kvs k of None \<Rightarrow> d | Some v \<Rightarrow> v)"
| "py_get v k d =
     Inl (AttributeError (quoted (type_name v) @ '' object has no attribute '' @ quoted ''get''))"

text \<open>\<^verbatim>\<open>v.split(sep)\<close> and \<^verbatim>\<open>v.strip()\<close>: methods of strings only.\<close>

fun py_split :: "'f json \<Rightarrow> string \<Rightarrow> exn + string list" where
  "py_split (JStr s) sep = Inr (split_str sep s)"
| "py_split v sep =
     Inl (AttributeError (quoted (type_name v) @ '' object has no attribute '' @ quoted ''split''))"

fun py_strip :: "'f json \<Rightarrow> exn + string" where
  "py_strip (JStr s) = Inr (strip s)"
| "py_strip v =
     Inl (AttributeError (quoted (type_name v) @ '' object has no attribute '' @ quoted ''strip''))"

text \<open>A decoded value stored in an \<^verbatim>\<open>Optional\<close> field: JSON null is Python's None.\<close>

fun optional :: "'f json \<Rightarrow> 'f json option" where
  "optional JNull = None"
| "optional v = Some v"

section \<open>The client and its environment\<close>

text \<open>The dataclass \<^verbatim>\<open>MCPResponse\<close>, with the defaults of its last three fields.\<close>

record 'f MCPResponse =
  success :: bool
  data :: "'f json option"
  error :: "string option"
  login_url :: "string option"

definition MCPResponse :: "bool \<Rightarrow> 'f MCPResponse" where
  "MCPResponse ok = \<lparr>success = ok, data = None, error = None, login_url = None\<rparr>"

text \<open>
  The attributes of \<^verbatim>\<open>KiteMCPClient\<close>. \<open>has_session\<close> tells whether
  \<^verbatim>\<open>self.session\<close> holds an HTTP session or is still None.
\<close>

record client =
  has_session :: bool
  mcp_url :: string
  session_id :: "string option"
  authenticated :: bool
  retry_count :: int
  timeout :: int

text \<open>\<^verbatim>\<open>KiteMCPClient()\<close>, and \<^verbatim>\<open>__aenter__\<close>, which opens the HTTP session.\<close>

definition new_client :: client where
  "new_client = \<lparr>has_session = False, mcp_url = ''https://mcp.kite.trade/sse'',
     session_id = None, authenticated = False, retry_count = 3, timeout = 30\<rparr>"

definition aenter :: "client \<Rightarrow> client" where
  "aenter c = c\<lparr>has_session := True\<rparr>"

text \<open>
  The JSON-RPC body of a request (the dict literals of the three operations) and the
  request as it is posted.
\<close>

record 'f payload =
  jsonrpc :: string
  req_id :: int
  req_method :: string
  params :: "'f json"

record 'f request =
  url :: string
  body :: "'f payload"
  headers :: "(string \<times> string) list"

text \<open>
  What one \<^verbatim>\<open>session.post\<close> meets: the call raises, or a response arrives with a
  status and with what \<^verbatim>\<open>await response.json()\<close> will give (a decoded value, or an
  exception). The network is a function from the number of requests posted so far and the
  request to that outcome.
\<close>

record 'f response =
  status :: int
  json_result :: "exn + 'f json"

datatype 'f outcome = Raises exn | Reply "'f response"

type_synonym 'f network = "nat \<Rightarrow> 'f request \<Rightarrow> 'f outcome"

text \<open>
  The observable effects of the client: the requests posted and the arguments of the
  calls of \<^verbatim>\<open>asyncio.sleep\<close>, both in order. Log output is left out: no result of
  an operation depends on it.
\<close>

record 'f trace =
  posts :: "'f request list"
  sleeps :: "int list"

definition no_trace :: "'f trace" where
  "no_trace = \<lparr>posts = [], sleeps = []\<rparr>"

definition sleep :: "int \<Rightarrow> 'f trace \<Rightarrow> 'f trace" where
  "sleep d t = t\<lparr>sleeps := sleeps t @ [d]\<rparr>"

text \<open>
  \<^verbatim>\<open>self.session.post(self.mcp_url, json=p, headers=...)\<close>: the request that is
  sent, and the call. Without a session the attribute lookup on None raises before
  anything is sent.
\<close>

definition http_request :: "client \<Rightarrow> 'f payload \<Rightarrow> 'f request" where
  "http_request c p =
     \<lparr>url = mcp_url c, body = p, headers = [(''Content-Type'', ''application/json'')]\<rparr>"

definition post :: "'f network \<Rightarrow> client \<Rightarrow> 'f payload \<Rightarrow> 'f trace \<Rightarrow> (exn + 'f response) \<times> 'f trace" where
  "post net c p t =
     (if \<not> has_session c
      then (Inl (AttributeError
                   (quoted ''NoneType'' @ '' object has no attribute '' @ quoted ''post'')), t)
      else (case net (length (posts t)) (http_request c p) of
              Raises e \<Rightarrow> Inl e
            | Reply resp \<Rightarrow> Inr resp,
            t\<lparr>posts := posts t @ [http_request c p]\<rparr>))"

text \<open>
  \<^verbatim>\<open>try: ... except Exception as e: return h(e)\<close> around a computation that gives a
  value or raises, next to the state it leaves behind.
\<close>

definition except_Exception :: "(exn + 'a) \<times> 's \<Rightarrow> (exn \<Rightarrow> 'a) \<Rightarrow> (exn + 'a) \<times> 's" where
  "except_Exception r h = (case r of (Inl e, s) \<Rightarrow> (Inr (h e), s) | (Inr v, s) \<Rightarrow> (Inr v, s))"

section \<open>initialize_connection\<close>

definition init_payload :: "'f payload" where
  "init_payload = \<lparr>jsonrpc = ''2.0'', req_id = 1, req_method = ''initialize'',
     params = JDict
       [(''protocolVersion'', JStr ''2024-11-05''),
        (''capabilities'', JDict
           [(''roots'', JDict [(''listChanged'', JBool True)]),
            (''resources'', JDict [(''listChanged'', JBool True)])]),
        (''clientInfo'', JDict
           [(''name'', JStr ''MFA-Version-2''), (''version'', JStr ''1.0.0'')])]\<rparr>"

text \<open>
  The body of the inner \<^verbatim>\<open>try\<close> (lines 69 to 79): \<open>Some r\<close> is the
  \<^verbatim>\<open>return\<close> of line 77, \<open>None\<close> the fall through after the warning of line 79.
\<close>

definition attempt_once :: "'f network \<Rightarrow> client \<Rightarrow> 'f trace \<Rightarrow> (exn + 'f MCPResponse option) \<times> 'f trace" where
  "attempt_once net c t =
     (case post net c init_payload t of
        (Inl e, t1) \<Rightarrow> (Inl e, t1)
      | (Inr resp, t1) \<Rightarrow>
          if status resp = 200
          then (case json_result resp of
                  Inl e \<Rightarrow> (Inl e, t1)
                | Inr result \<Rightarrow> (Inr (Some ((MCPResponse True)\<lparr>data := optional result\<rparr>)), t1))
          else (Inr None, t1))"

text \<open>
  What makes an attempt return: the outcome of its request is a response with status 200
  whose body decodes, and \<open>accepted\<close> gives the decoded body. For every other outcome
  (a request that raises, another status, a body that does not decode) it is \<open>None\<close>.
\<close>

definition accepted :: "'f outcome \<Rightarrow> 'f json option" where
  "accepted out =
     (case out of
        Raises e \<Rightarrow> None
      | Reply resp \<Rightarrow>
          if status resp = 200
          then (case json_result resp of Inl e \<Rightarrow> None | Inr result \<Rightarrow> Some result)
          else None)"

text \<open>
  The loop \<^verbatim>\<open>for attempt in range(self.retry_count)\<close> over the attempts that are
  left. The handler of the inner \<^verbatim>\<open>except\<close> (lines 81 to 84) sleeps
  \<open>2 ** attempt\<close> unless the attempt is the last one; \<open>None\<close> is the end of the loop
  without a \<^verbatim>\<open>return\<close>.
\<close>

fun retry_loop :: "'f network \<Rightarrow> client \<Rightarrow> nat list \<Rightarrow> 'f trace \<Rightarrow> 'f MCPResponse option \<times> 'f trace" where
  "retry_loop net c [] t = (None, t)"
| "retry_loop net c (attempt # rest) t =
     (case attempt_once net c t of
        (Inr (Some r), t1) \<Rightarrow> (Some r, t1)
      | (Inr None, t1) \<Rightarrow> retry_loop net c rest t1
      | (Inl e, t1) \<Rightarrow>
          retry_loop net c rest
            (if int attempt < retry_count c - 1 then sleep (2 ^ attempt) t1 else t1))"

definition initialize_connection :: "'f network \<Rightarrow> client \<Rightarrow> 'f trace \<Rightarrow> (exn + 'f MCPResponse) \<times> client \<times> 'f trace" where
  "initialize_connection net c t =
     except_Exception
       (case retry_loop net c [0 ..< nat (retry_count c)] t of
          (Some r, t1) \<Rightarrow> (Inr r, c, t1)
        | (None, t1) \<Rightarrow>
            (Inr ((MCPResponse False)
                    \<lparr>error := Some ''Failed to initialize MCP connection after all retries''\<rparr>),
             c, t1))
       (\<lambda>e. (MCPResponse False)\<lparr>error := Some (str_exn e)\<rparr>)"

section \<open>request_login\<close>

definition login_payload :: "'f payload" where
  "login_payload = \<lparr>jsonrpc = ''2.0'', req_id = 2, req_method = ''tools/call'',
     params = JDict [(''name'', JStr ''login''), (''arguments'', JDict [])]\<rparr>"

definition login_domain :: string where
  "login_domain = ''https://kite.zerodha.com/connect/login''"

text \<open>
  Lines 123 and 125 for a \<open>login_info\<close> that holds the domain literal: the conditional
  expression tests \<^verbatim>\<open>"URL: " in login_info\<close> first, takes
  \<^verbatim>\<open>login_info.split("URL: ")[1].split("\n")[0]\<close> or \<open>login_info\<close> itself, and the
  result is stripped.
\<close>

definition parse_login_url :: "'f json \<Rightarrow> exn + string" where
  "parse_login_url login_info =
     and_then (py_in ''URL: '' login_info) (\<lambda>marked.
     and_then
       (if marked
        then and_then (py_split login_info ''URL: '') (\<lambda>pieces.
             and_then (getitem_list pieces 1) (\<lambda>piece.
             and_then (getitem_list (split_str [CHR 0x0A] piece) 0) (\<lambda>line.
             Inr (JStr line))))
        else Inr login_info) (\<lambda>login_url.
     py_strip login_url))"

text \<open>
  Lines 116 to 125 on the decoded body: \<open>Some u\<close> is the \<^verbatim>\<open>return\<close> of line 125
  with the login URL \<open>u\<close>, \<open>None\<close> the fall through to line 127.
\<close>

definition find_login_url :: "'f json \<Rightarrow> exn + string option" where
  "find_login_url result =
     and_then (py_in ''result'' result) (\<lambda>has_result.
     and_then
       (if has_result
        then and_then (py_getitem result ''result'') (py_in ''content'')
        else Inr False) (\<lambda>has_content.
     if has_content
     then and_then (py_getitem result ''result'') (\<lambda>inner.
          and_then (py_getitem inner ''content'') (\<lambda>content.
          case content of
            JList (first # rest) \<Rightarrow>
              and_then (py_get first ''text'' (JStr [])) (\<lambda>login_info.
              and_then (py_in login_domain login_info) (\<lambda>has_domain.
              if has_domain
              then and_then (parse_login_url login_info) (\<lambda>u. Inr (Some u))
              else Inr None))
          | _ \<Rightarrow> Inr None))
     else Inr None))"

definition request_login :: "'f network \<Rightarrow> client \<Rightarrow> 'f trace \<Rightarrow> (exn + 'f MCPResponse) \<times> client \<times> 'f trace" where
  "request_login net c t =
     except_Exception
       (case post net c login_payload t of
          (Inl e, t1) \<Rightarrow> (Inl e, c, t1)
        | (Inr resp, t1) \<Rightarrow>
            if status resp = 200
            then (case and_then (json_result resp) find_login_url of
                    Inl e \<Rightarrow> (Inl e, c, t1)
                  | Inr (Some u) \<Rightarrow> (Inr ((MCPResponse True)\<lparr>login_url := Some u\<rparr>), c, t1)
                  | Inr None \<Rightarrow>
                      (Inr ((MCPResponse False)\<lparr>error := Some ''Invalid response format''\<rparr>),
                       c, t1))
            else (Inr ((MCPResponse False)
                         \<lparr>error := Some (''Login request failed with status '' @ str_int (status resp))\<rparr>),
                  c, t1))
       (\<lambda>e. (MCPResponse False)\<lparr>error := Some (''Login request error: '' @ str_exn e)\<rparr>)"

section \<open>get_portfolio_recommendation\<close>

text \<open>
  The f-string of lines 143 to 155. \<open>rupees amount\<close> is the text of the rupee sign
  followed by \<^verbatim>\<open>{amount:,.0f}\<close> for the float \<open>amount\<close> (the currency sign and the
  float formatting are a parameter of the model).
\<close>

definition query_text :: "('f \<Rightarrow> string) \<Rightarrow> int \<Rightarrow> 'f \<Rightarrow> string \<Rightarrow> string \<Rightarrow> string" where
  "query_text rupees age amount plan_type risk_level =
     [CHR 0x0A] @
     ''            I am '' @ str_int age @ '' years old and want to invest '' @ rupees amount
       @ '' through '' @ plan_type @ ''.'' @ [CHR 0x0A] @
     ''            My risk tolerance is '' @ risk_level @ ''.'' @ [CHR 0x0A] @
     [CHR 0x0A] @
     ''            Please provide:'' @ [CHR 0x0A] @
     ''            1. Optimal asset allocation (equity/debt/gold percentages)'' @ [CHR 0x0A] @
     ''            2. Specific mutual fund recommendations '' @ [CHR 0x0A] @
     ''            3. Expected returns over 5, 10, and 15 years'' @ [CHR 0x0A] @
     ''            4. Current market conditions analysis'' @ [CHR 0x0A] @
     ''            5. Tax-efficient investment strategy'' @ [CHR 0x0A] @
     [CHR 0x0A] @
     ''            Consider current market data, interest rates, and inflation while making recommendations.''
       @ [CHR 0x0A] @
     ''            ''"

definition recommendation_payload :: "('f \<Rightarrow> string) \<Rightarrow> int \<Rightarrow> 'f \<Rightarrow> string \<Rightarrow> string \<Rightarrow> 'f payload" where
  "recommendation_payload rupees age amount plan_type risk_level =
     \<lparr>jsonrpc = ''2.0'', req_id = 3, req_method = ''tools/call'',
      params = JDict
        [(''name'', JStr ''get_investment_advice''),
         (''arguments'', JDict
            [(''query'', JStr (query_text rupees age amount plan_type risk_level)),
             (''age'', JInt age),
             (''amount'', JFloat amount),
             (''investment_type'', JStr plan_type),
             (''risk_profile'', JStr risk_level)])]\<rparr>"

definition get_portfolio_recommendation ::
  "('f \<Rightarrow> string) \<Rightarrow> 'f network \<Rightarrow> client \<Rightarrow> int \<Rightarrow> 'f \<Rightarrow> string \<Rightarrow> string \<Rightarrow> 'f trace
     \<Rightarrow> (exn + 'f MCPResponse) \<times> client \<times> 'f trace" where
  "get_portfolio_recommendation rupees net c age amount plan_type risk_level t =
     except_Exception
       (case post net c (recommendation_payload rupees age amount plan_type risk_level) t of
          (Inl e, t1) \<Rightarrow> (Inl e, c, t1)
        | (Inr resp, t1) \<Rightarrow>
            if status resp = 200
            then (case json_result resp of
                    Inl e \<Rightarrow> (Inl e, c, t1)
                  | Inr result \<Rightarrow> (Inr ((MCPResponse True)\<lparr>data := optional result\<rparr>), c, t1))
            else (Inr ((MCPResponse False)
                         \<lparr>error := Some (''Portfolio request failed with status '' @ str_int (status resp))\<rparr>),
                  c, t1))
       (\<lambda>e. (MCPResponse False)\<lparr>error := Some (''Portfolio recommendation error: '' @ str_exn e)\<rparr>)"

section \<open>extract_session_id_from_callback\<close>

text \<open>
  The method takes a string and returns \<^verbatim>\<open>Optional[str]\<close>; its own
  \<^verbatim>\<open>try\<close> turns an exception into None. The two assignments to \<^verbatim>\<open>self\<close>
  come after the expression that could raise, so the client is unchanged on that path.
\<close>

definition extract_session_id_from_callback :: "client \<Rightarrow> string \<Rightarrow> string option \<times> client" where
  "extract_session_id_from_callback c callback_url =
     (if str_in ''session_id='' callback_url
      then (case and_then (getitem_list (split_str ''session_id='' callback_url) 1)
                   (\<lambda>piece. getitem_list (split_str ''&'' piece) 0) of
              Inl e \<Rightarrow> (None, c)
            | Inr sid \<Rightarrow> (Some sid, c\<lparr>session_id := Some sid, authenticated := True\<rparr>))
      else (None, c))"

section \<open>The logout handler of the Streamlit app\<close>




section \<open>Networks and bodies for concrete runs\<close>

text \<open>
  A network that answers the first requests with the outcomes of a list, in order, and
  every later request with one fixed outcome.
\<close>

definition scripted :: "'f outcome list \<Rightarrow> 'f outcome \<Rightarrow> 'f network" where
  "scripted os d n q = (if n < length os then os ! n else d)"

text \<open>A response with a status and a body that decodes to a value.\<close>

definition reply :: "int \<Rightarrow> 'f json \<Rightarrow> 'f outcome" where
  "reply st v = Reply \<lparr>status = st, json_result = Inr v\<rparr>"

text \<open>
  The decoded body of a tool result whose content list holds one text item, the shape in
  which \<^verbatim>\<open>request_login\<close> looks for the login message.
\<close>

definition text_content :: "string \<Rightarrow> 'f json" where
  "text_content txt =
     JDict [(''jsonrpc'', JStr ''2.0''), (''id'', JInt 2),
            (''result'', JDict [(''content'',
               JList [JDict [(''type'', JStr ''text''), (''text'', JStr txt)]])])]"

section \<open>Strings: first occurrences and pieces of a split\<close>

text \<open>
  \<open>partition_str\<close> finds the first occurrence of the separator: it splits the string
  around an occurrence, and no occurrence starts earlier. \<open>str_in\<close> is the substring
  test of the library, and the items 0 and 1 of a split are the texts before the first
  occurrence of the separator in the string and in what follows its first occurrence.
\<close>

lemma partition_str_decomp:
  "partition_str sep s = Some (a, b) \<Longrightarrow> s = a @ sep @ b"
proof (induction s arbitrary: a b)
  case Nil
  then show ?case by (simp split: if_splits)
next
  case (Cons c cs)
  show ?case
  proof (cases "prefix sep (c # cs)")
    case True
    with Cons.prems have "a = []" and "b = drop (length sep) (c # cs)" by simp_all
    moreover from True have "c # cs = sep @ drop (length sep) (c # cs)"
      by (metis append_eq_conv_conj prefix_def)
    ultimately show ?thesis by simp
  next
    case False
    with Cons.prems obtain a' where "partition_str sep cs = Some (a', b)" and "a = c # a'"
      by (auto split: option.splits)
    with Cons.IH show ?thesis by simp
  qed
qed

lemma str_in_sublist: "str_in sub s = sublist sub s"
proof (induction s)
  case Nil
  show ?case by (auto simp: str_in_def)
next
  case (Cons c cs)
  have "str_in sub (c # cs) = (prefix sub (c # cs) \<or> str_in sub cs)"
    by (auto simp: str_in_def split: option.splits)
  with Cons show ?case by (simp add: sublist_Cons_right)
qed

lemma partition_str_least:
  "partition_str sep s = Some (a, b) \<Longrightarrow> s = a' @ sep @ b' \<Longrightarrow> length a \<le> length a'"
proof (induction s arbitrary: a a')
  case Nil
  then show ?case by (simp split: if_splits)
next
  case (Cons c cs)
  show ?case
  proof (cases "prefix sep (c # cs)")
    case True
    with Cons.prems(1) have "a = []" by simp
    then show ?thesis by simp
  next
    case False
    with Cons.prems(1) obtain a1 where a1: "partition_str sep cs = Some (a1, b)" "a = c # a1"
      by (auto split: option.splits)
    from False Cons.prems(2) have "a' \<noteq> []" by auto
    with Cons.prems(2) obtain a2 where a2: "a' = c # a2" "cs = a2 @ sep @ b'"
      by (cases a') auto
    from Cons.IH [OF a1(1) a2(2)] a1(2) a2(1) show ?thesis by simp
  qed
qed

lemma partition_str_None: "partition_str sep s = None \<longleftrightarrow> \<not> sublist sep s"
  using str_in_sublist [of sep s] by (cases "partition_str sep s") (auto simp: str_in_def)

lemma partition_str_first:
  "partition_str sep s = Some (a, b) \<longleftrightarrow>
     s = a @ sep @ b \<and> (\<forall>a' b'. s = a' @ sep @ b' \<longrightarrow> length a \<le> length a')"
proof
  assume "partition_str sep s = Some (a, b)"
  then show "s = a @ sep @ b \<and> (\<forall>a' b'. s = a' @ sep @ b' \<longrightarrow> length a \<le> length a')"
    using partition_str_decomp partition_str_least by blast
next
  assume r: "s = a @ sep @ b \<and> (\<forall>a' b'. s = a' @ sep @ b' \<longrightarrow> length a \<le> length a')"
  then have "sublist sep s" by (auto simp: sublist_def)
  then obtain a0 b0 where p: "partition_str sep s = Some (a0, b0)"
    using partition_str_None [of sep s] by (cases "partition_str sep s") auto
  then have d: "s = a0 @ sep @ b0" by (rule partition_str_decomp)
  from r d have "length a \<le> length a0" by blast
  moreover from p r have "length a0 \<le> length a" using partition_str_least by blast
  ultimately have "length a = length a0" by simp
  with r d have "a = a0 \<and> b = b0" by (metis append_eq_append_conv same_append_eq)
  with p show "partition_str sep s = Some (a, b)" by simp
qed

lemma split_str_item0:
  "sep \<noteq> [] \<Longrightarrow> getitem_list (split_str sep s) 0 = Inr (before_first sep s)"
  by (subst split_str.simps) (simp add: getitem_list_def before_first_def split: option.splits)

lemma split_str_item1:
  assumes "sep \<noteq> []" and "partition_str sep s = Some (a, b)"
  shows "getitem_list (split_str sep s) 1 = Inr (before_first sep b)"
proof -
  have s: "split_str sep s = a # split_str sep b"
    using assms by (subst split_str.simps) simp
  have "split_str sep b \<noteq> [] \<and> hd (split_str sep b) = before_first sep b"
    using assms(1) by (subst (1 2) split_str.simps) (simp add: before_first_def split: option.splits)
  then show ?thesis
    using s by (cases "split_str sep b") (simp_all add: getitem_list_def)
qed

lemma before_first_char: "before_first [c] s = takeWhile (\<lambda>x. x \<noteq> c) s"
proof (induction s)
  case Nil
  show ?case by (simp add: before_first_def)
next
  case (Cons x xs)
  then show ?case by (auto simp: before_first_def split: option.splits)
qed

section \<open>The session id of a callback string\<close>

text \<open>
  When the marker occurs, the session id is the text after its first occurrence, up to
  the next \<open>&\<close> or the next occurrence of the marker, and the client stores it and
  becomes authenticated; when the marker does not occur, nothing is returned and the
  client is unchanged.
\<close>

lemma extract_found:
  assumes "partition_str ''session_id='' cb = Some (pre, rest)"
  shows "extract_session_id_from_callback c cb =
           (Some (before_first ''&'' (before_first ''session_id='' rest)),
            c\<lparr>session_id := Some (before_first ''&'' (before_first ''session_id='' rest)),
              authenticated := True\<rparr>)"
  using assms
  by (simp add: extract_session_id_from_callback_def str_in_def split_str_item1 split_str_item0 and_then_def
        del: One_nat_def)

lemma extract_absent:
  assumes "\<not> sublist ''session_id='' cb"
  shows "extract_session_id_from_callback c cb = (None, c)"
  using assms by (simp add: extract_session_id_from_callback_def str_in_sublist)

text \<open>
  Claim C5. \<open>extract_session_id_from_callback\<close> on
  \<^verbatim>\<open>"https://host/cb?status=success&session_id=abc123&foo=bar"\<close> returns exactly
  \<^verbatim>\<open>"abc123"\<close> and sets the stored session id and the authenticated flag; on any
  callback string without the substring \<^verbatim>\<open>"session_id="\<close> it returns no value and
  leaves the client, and so \<open>session_id\<close> and \<open>authenticated\<close>, as they were.
\<close>


theorem extract_session_id_callback:
  "extract_session_id_from_callback c ''https://host/cb?status=success&session_id=abc123&foo=bar''
     = (Some ''abc123'', c\<lparr>session_id := Some ''abc123'', authenticated := True\<rparr>)
   \<and> (\<not> sublist ''session_id='' cb \<longrightarrow> extract_session_id_from_callback c cb = (None, c))"
proof -
  have p: "partition_str ''session_id='' ''https://host/cb?status=success&session_id=abc123&foo=bar''
             = Some (''https://host/cb?status=success&'', ''abc123&foo=bar'')"
    by code_simp
  have b: "before_first ''&'' (before_first ''session_id='' ''abc123&foo=bar'') = ''abc123''"
    by code_simp
  show ?thesis
    using extract_found [OF p, of c] extract_absent [of cb c] by (simp add: b)
qed

theorem extract_session_id_callback_witness:
  "extract_session_id_from_callback new_client ''https://host/cb?status=success&session_id=abc123&foo=bar''
     = (Some ''abc123'', new_client\<lparr>session_id := Some ''abc123'', authenticated := True\<rparr>)
   \<and> \<not> sublist ''session_id='' ''https://host/cb?status=success&abc123&foo=bar''
   \<and> extract_session_id_from_callback new_client ''https://host/cb?status=success&abc123&foo=bar''
     = (None, new_client)"
proof -
  have n: "\<not> sublist ''session_id='' ''https://host/cb?status=success&abc123&foo=bar''"
    by code_simp
  with extract_session_id_callback [of new_client "''https://host/cb?status=success&abc123&foo=bar''"]
  show ?thesis by simp
qed

text \<open>
  Claim C9, as stated, fails: in the callback string below the literal
  \<^verbatim>\<open>"session_id="\<close> is followed by the end of the string (the string ends with it),
  and the extracted session id is \<^verbatim>\<open>abc\<close>, not the empty string, because the
  code splits at the first occurrence of the literal.
\<close>

theorem extract_later_occurrence:
  "suffix ''session_id='' ''a=session_id=abc&b=session_id=''
   \<and> extract_session_id_from_callback new_client ''a=session_id=abc&b=session_id=''
     = (Some ''abc'', new_client\<lparr>session_id := Some ''abc'', authenticated := True\<rparr>)
   \<and> ''abc'' \<noteq> []"
  by code_simp

text \<open>
  Claim C9, amended. For a callback string in which the first occurrence of the literal
  \<^verbatim>\<open>"session_id="\<close> (\<open>pre\<close> is the text before it and \<open>rest\<close> the text after
  it) is immediately followed by \<open>&\<close> or by the end of the string, the extraction
  succeeds with the empty string as the session id and sets \<open>authenticated\<close>: the id
  is not checked for being non-empty.
\<close>

theorem extract_empty_session_id:
  assumes "partition_str ''session_id='' cb = Some (pre, rest)"
    and "rest = [] \<or> prefix ''&'' rest"
  shows "extract_session_id_from_callback c cb
           = (Some [], c\<lparr>session_id := Some [], authenticated := True\<rparr>)"
proof -
  have "before_first ''&'' (before_first ''session_id='' rest) = []"
  proof (cases rest)
    case Nil
    then show ?thesis by (simp add: before_first_def)
  next
    case (Cons x r)
    with assms(2) have x: "x = CHR ''&''" by simp
    have "\<exists>y. before_first ''session_id='' (CHR ''&'' # r) = CHR ''&'' # y"
      by (auto simp: before_first_def split: option.splits)
    then obtain y where "before_first ''session_id='' rest = CHR ''&'' # y"
      using Cons x by auto
    then show ?thesis by (simp add: before_first_def)
  qed
  with extract_found [OF assms(1), of c] show ?thesis by simp
qed

theorem extract_empty_session_id_witness:
  "extract_session_id_from_callback new_client ''https://host/cb?session_id=''
     = (Some [], new_client\<lparr>session_id := Some [], authenticated := True\<rparr>)
   \<and> extract_session_id_from_callback new_client ''https://host/cb?session_id=&status=success''
     = (Some [], new_client\<lparr>session_id := Some [], authenticated := True\<rparr>)"
proof -
  have p1: "partition_str ''session_id='' ''https://host/cb?session_id='' = Some (''https://host/cb?'', [])"
    by code_simp
  have p2: "partition_str ''session_id='' ''https://host/cb?session_id=&status=success''
              = Some (''https://host/cb?'', ''&status=success'')"
    by code_simp
  show ?thesis
    using extract_empty_session_id [OF p1, of new_client]
      extract_empty_session_id [OF p2, of new_client] by simp
qed

section \<open>The envelopes of the three operations\<close>

text \<open>
  Each operation is a \<^verbatim>\<open>try\<close> whose handler builds a failure envelope, so it
  returns on every path; the client record comes back as it went in; a returned envelope
  is a success without an error message or a failure with one.
\<close>

lemma except_Exception_returns: "\<exists>v. fst (except_Exception r h) = Inr v"
  by (cases r) (auto simp: except_Exception_def split: sum.splits)

lemma except_Exception_state: "snd (except_Exception r h) = snd r"
  by (cases r) (auto simp: except_Exception_def split: sum.splits)

lemma attempt_once_returned:
  "attempt_once net c t = (Inr (Some r), t1) \<Longrightarrow>
     success r \<and> error r = None \<and> login_url r = None"
  by (auto simp: attempt_once_def MCPResponse_def split: prod.splits sum.splits if_splits)

lemma retry_loop_returned:
  "retry_loop net c attempts t = (Some r, t1) \<Longrightarrow>
     success r \<and> error r = None \<and> login_url r = None"
proof (induction attempts arbitrary: t)
  case Nil
  then show ?case by simp
next
  case (Cons attempt rest)
  obtain res t2 where a: "attempt_once net c t = (res, t2)"
    by (cases "attempt_once net c t")
  show ?case
  proof (cases res)
    case (Inl e)
    with a Cons.prems Cons.IH show ?thesis by (simp split: if_splits)
  next
    case (Inr v)
    show ?thesis
    proof (cases v)
      case None
      with a Inr Cons.prems Cons.IH show ?thesis by simp
    next
      case (Some r')
      with a Inr Cons.prems have "r' = r" by simp
      with a Inr Some attempt_once_returned show ?thesis by blast
    qed
  qed
qed

lemma initialize_connection_client: "fst (snd (initialize_connection net c t)) = c"
  by (simp add: initialize_connection_def except_Exception_def split: prod.splits option.splits)

lemma request_login_client: "fst (snd (request_login net c t)) = c"
  by (simp add: request_login_def except_Exception_def split: prod.splits option.splits sum.splits)

lemma get_portfolio_recommendation_client:
  "fst (snd (get_portfolio_recommendation rupees net c age amount plan_type risk_level t)) = c"
  by (simp add: get_portfolio_recommendation_def except_Exception_def
      split: prod.splits option.splits sum.splits)

lemma initialize_connection_envelope:
  "fst (initialize_connection net c t) = Inr r \<Longrightarrow>
     (success r \<longleftrightarrow> error r = None) \<and> login_url r = None"
  by (auto simp: initialize_connection_def except_Exception_def MCPResponse_def
      split: prod.splits option.splits dest: retry_loop_returned)

lemma request_login_envelope:
  "fst (request_login net c t) = Inr r \<Longrightarrow>
     (success r \<longleftrightarrow> error r = None) \<and> (login_url r \<noteq> None \<longleftrightarrow> success r) \<and> data r = None"
  by (auto simp: request_login_def except_Exception_def MCPResponse_def
      split: prod.splits option.splits sum.splits if_splits)

lemma get_portfolio_recommendation_envelope:
  "fst (get_portfolio_recommendation rupees net c age amount plan_type risk_level t) = Inr r \<Longrightarrow>
     (success r \<longleftrightarrow> error r = None) \<and> login_url r = None"
  by (auto simp: get_portfolio_recommendation_def except_Exception_def MCPResponse_def
      split: prod.splits option.splits sum.splits if_splits)

lemma request_login_fault:
  assumes "has_session c"
    and "net (length (posts t)) (http_request c login_payload) = Raises e
         \<or> (\<exists>resp. net (length (posts t)) (http_request c login_payload) = Reply resp
               \<and> status resp = 200 \<and> json_result resp = Inl e)"
  shows "fst (request_login net c t)
           = Inr ((MCPResponse False)\<lparr>error := Some (''Login request error: '' @ str_exn e)\<rparr>)"
  using assms by (auto simp: request_login_def except_Exception_def post_def and_then_def)

lemma get_portfolio_recommendation_fault:
  assumes "has_session c"
    and "net (length (posts t))
           (http_request c (recommendation_payload rupees age amount plan_type risk_level)) = Raises e
         \<or> (\<exists>resp. net (length (posts t))
                     (http_request c (recommendation_payload rupees age amount plan_type risk_level))
                     = Reply resp
               \<and> status resp = 200 \<and> json_result resp = Inl e)"
  shows "fst (get_portfolio_recommendation rupees net c age amount plan_type risk_level t)
           = Inr ((MCPResponse False)
                    \<lparr>error := Some (''Portfolio recommendation error: '' @ str_exn e)\<rparr>)"
  using assms by (auto simp: get_portfolio_recommendation_def except_Exception_def post_def)

text \<open>
  Claim C3. In every envelope returned by one of the three operations, \<open>success\<close> and
  a present \<open>error\<close> exclude each other, and \<open>login_url\<close> is None in every envelope
  of \<open>initialize_connection\<close> and of \<open>get_portfolio_recommendation\<close>: only
  \<open>request_login\<close> fills it.
\<close>

theorem envelope_invariant:
  "(fst (initialize_connection net c t) = Inr r1 \<longrightarrow>
      \<not> (success r1 \<and> error r1 \<noteq> None) \<and> login_url r1 = None)
   \<and> (fst (request_login net c t) = Inr r2 \<longrightarrow> \<not> (success r2 \<and> error r2 \<noteq> None))
   \<and> (fst (get_portfolio_recommendation rupees net c age amount plan_type risk_level t) = Inr r3 \<longrightarrow>
      \<not> (success r3 \<and> error r3 \<noteq> None) \<and> login_url r3 = None)"
proof (intro conjI impI)
  assume "fst (initialize_connection net c t) = Inr r1"
  from initialize_connection_envelope [OF this]
  show "\<not> (success r1 \<and> error r1 \<noteq> None)" and "login_url r1 = None"
    by auto
next
  assume "fst (request_login net c t) = Inr r2"
  from request_login_envelope [OF this]
  show "\<not> (success r2 \<and> error r2 \<noteq> None)"
    by auto
next
  assume "fst (get_portfolio_recommendation rupees net c age amount plan_type risk_level t) = Inr r3"
  from get_portfolio_recommendation_envelope [OF this]
  show "\<not> (success r3 \<and> error r3 \<noteq> None)" and "login_url r3 = None"
    by auto
qed

theorem envelope_invariant_witness:
  "fst (initialize_connection
          (\<lambda>n q. Reply \<lparr>status = 200, json_result = Inr (JDict [(''result'', JDict [(''content'',
             JList [JDict [(''text'', JStr ''URL: https://kite.zerodha.com/connect/login?x=1'')]])])])\<rparr>)
          (aenter new_client) (no_trace :: unit trace))
     = Inr \<lparr>success = True, data = Some (JDict [(''result'', JDict [(''content'',
             JList [JDict [(''text'', JStr ''URL: https://kite.zerodha.com/connect/login?x=1'')]])])]),
           error = None, login_url = None\<rparr>
   \<and> fst (request_login
          (\<lambda>n q. Reply \<lparr>status = 200, json_result = Inr (JDict [(''result'', JDict [(''content'',
             JList [JDict [(''text'', JStr ''URL: https://kite.zerodha.com/connect/login?x=1'')]])])])\<rparr>)
          (aenter new_client) (no_trace :: unit trace))
     = Inr \<lparr>success = True, data = None, error = None,
           login_url = Some ''https://kite.zerodha.com/connect/login?x=1''\<rparr>
   \<and> fst (get_portfolio_recommendation (\<lambda>a. ''Rs 10,000'')
          (\<lambda>n q. Reply \<lparr>status = 500, json_result = Inr JNull\<rparr>)
          (aenter new_client) 30 () ''SIP'' ''High'' (no_trace :: unit trace))
     = Inr \<lparr>success = False, data = None,
           error = Some ''Portfolio request failed with status 500'', login_url = None\<rparr>"
proof -
  let ?net = "\<lambda>(n :: nat) (q :: unit request). Reply \<lparr>status = 200, json_result = Inr (JDict [(''result'', JDict [(''content'',
             JList [JDict [(''text'', JStr ''URL: https://kite.zerodha.com/connect/login?x=1'')]])])])\<rparr>"
  let ?r1 = "\<lparr>success = True, data = Some (JDict [(''result'', JDict [(''content'',
             JList [JDict [(''text'', JStr ''URL: https://kite.zerodha.com/connect/login?x=1'')]])])]),
           error = None, login_url = None\<rparr> :: unit MCPResponse"
  let ?r2 = "\<lparr>success = True, data = None, error = None,
           login_url = Some ''https://kite.zerodha.com/connect/login?x=1''\<rparr> :: unit MCPResponse"
  let ?r3 = "\<lparr>success = False, data = None,
           error = Some ''Portfolio request failed with status 500'', login_url = None\<rparr> :: unit MCPResponse"
  have 1: "fst (initialize_connection ?net (aenter new_client) no_trace) = Inr ?r1"
    by code_simp
  have 2: "fst (request_login ?net (aenter new_client) no_trace) = Inr ?r2"
    by code_simp
  have 3: "fst (get_portfolio_recommendation (\<lambda>a. ''Rs 10,000'')
          (\<lambda>n q. Reply \<lparr>status = 500, json_result = Inr JNull\<rparr>)
          (aenter new_client) 30 () ''SIP'' ''High'' (no_trace :: unit trace)) = Inr ?r3"
    by code_simp
  from 1 2 3
    envelope_invariant [of ?net "aenter new_client" no_trace ?r1 ?r2]
    envelope_invariant [of "\<lambda>n q. Reply \<lparr>status = 500, json_result = Inr JNull\<rparr>" "aenter new_client"
      no_trace _ _ "\<lambda>a. ''Rs 10,000''" 30 "()" "''SIP''" "''High''" ?r3]
  show ?thesis by simp
qed

text \<open>
  Claim C10. \<open>initialize_connection\<close> and \<open>request_login\<close> (and
  \<open>get_portfolio_recommendation\<close>) leave \<open>session_id\<close> and \<open>authenticated\<close> of
  the client as they were, for every network, client and trace, whether they succeed or
  fail; \<open>extract_session_id_from_callback\<close> is the operation that changes both.
\<close>

theorem authentication_state_frame:
  "session_id (fst (snd (initialize_connection net c t))) = session_id c
   \<and> authenticated (fst (snd (initialize_connection net c t))) = authenticated c
   \<and> session_id (fst (snd (request_login net c t))) = session_id c
   \<and> authenticated (fst (snd (request_login net c t))) = authenticated c
   \<and> session_id (fst (snd (get_portfolio_recommendation rupees net c age amount plan_type risk_level t)))
       = session_id c
   \<and> authenticated (fst (snd (get_portfolio_recommendation rupees net c age amount plan_type risk_level t)))
       = authenticated c
   \<and> session_id (snd (extract_session_id_from_callback new_client ''https://host/cb?session_id=abc123''))
       = Some ''abc123''
   \<and> session_id new_client = None
   \<and> authenticated (snd (extract_session_id_from_callback new_client ''https://host/cb?session_id=abc123''))
   \<and> \<not> authenticated new_client"
proof -
  have p: "partition_str ''session_id='' ''https://host/cb?session_id=abc123''
             = Some (''https://host/cb?'', ''abc123'')"
    by code_simp
  have b: "before_first ''&'' (before_first ''session_id='' ''abc123'') = ''abc123''"
    by code_simp
  have "snd (extract_session_id_from_callback new_client ''https://host/cb?session_id=abc123'')
          = new_client\<lparr>session_id := Some ''abc123'', authenticated := True\<rparr>"
    using extract_found [OF p, of new_client] by (simp add: b)
  then show ?thesis
    by (simp add: initialize_connection_client request_login_client
        get_portfolio_recommendation_client new_client_def)
qed

section \<open>Requests, statuses and retries\<close>

text \<open>
  What the operations post and how they react to a status. One call of \<open>post\<close> appends
  one request when the client has a session; the loop of \<open>initialize_connection\<close>
  posts the same request once per attempt; a success is returned only for a response
  with status 200.
\<close>

lemma post_posts:
  "post net c p t = (res, t1) \<Longrightarrow>
     posts t1 = posts t @ (if has_session c then [http_request c p] else []) \<and> sleeps t1 = sleeps t"
  by (auto simp: post_def split: if_splits)

lemma attempt_once_posts:
  "attempt_once net c t = (res, t1) \<Longrightarrow>
     posts t1 = posts t @ (if has_session c then [http_request c init_payload] else [])"
  by (auto simp: attempt_once_def split: prod.splits sum.splits if_splits dest: post_posts)

lemma retry_loop_posts:
  "retry_loop net c attempts t = (res, t1) \<Longrightarrow>
     \<exists>k \<le> length attempts. posts t1 = posts t @ replicate k (http_request c init_payload)"
proof (induction attempts arbitrary: t)
  case Nil
  then show ?case by simp
next
  case (Cons attempt rest)
  obtain a t2 where a: "attempt_once net c t = (a, t2)"
    by (cases "attempt_once net c t")
  from attempt_once_posts [OF a]
  obtain j where j: "j \<le> 1" "posts t2 = posts t @ replicate j (http_request c init_payload)"
    by (cases "has_session c") (auto intro: that [of 1] that [of 0])
  show ?case
  proof (cases "\<exists>r. a = Inr (Some r)")
    case True
    with a Cons.prems have "t1 = t2" by auto
    with j show ?thesis by (intro exI [of _ j]) simp
  next
    case False
    then obtain t3 where t3: "retry_loop net c rest t3 = (res, t1)" "posts t3 = posts t2"
      using a Cons.prems by (cases a) (auto simp: sleep_def split: option.splits if_splits)
    from Cons.IH [OF t3(1)] obtain k where
      "k \<le> length rest" "posts t1 = posts t3 @ replicate k (http_request c init_payload)"
      by blast
    with j t3(2) show ?thesis
      by (intro exI [of _ "j + k"]) (simp add: replicate_add)
  qed
qed

lemma initialize_connection_posts:
  "\<exists>k \<le> nat (retry_count c).
     posts (snd (snd (initialize_connection net c t))) = posts t @ replicate k (http_request c init_payload)"
proof -
  obtain res t1 where r: "retry_loop net c [0 ..< nat (retry_count c)] t = (res, t1)"
    by (cases "retry_loop net c [0 ..< nat (retry_count c)] t")
  from retry_loop_posts [OF r] r show ?thesis
    by (auto simp: initialize_connection_def except_Exception_def split: option.splits)
qed

lemma initialize_connection_failure:
  "fst (initialize_connection net c t) = Inr r \<Longrightarrow> \<not> success r \<Longrightarrow>
     error r = Some ''Failed to initialize MCP connection after all retries''"
  by (auto simp: initialize_connection_def except_Exception_def MCPResponse_def
      split: prod.splits option.splits dest: retry_loop_returned)

lemma request_login_posts:
  "posts (snd (snd (request_login net c t)))
     = posts t @ (if has_session c then [http_request c login_payload] else [])"
  by (auto simp: request_login_def except_Exception_def post_def
      split: prod.splits option.splits sum.splits outcome.splits)

lemma get_portfolio_recommendation_posts:
  "posts (snd (snd (get_portfolio_recommendation rupees net c age amount plan_type risk_level t)))
     = posts t @ (if has_session c
                  then [http_request c (recommendation_payload rupees age amount plan_type risk_level)]
                  else [])"
  by (auto simp: get_portfolio_recommendation_def except_Exception_def post_def
      split: prod.splits option.splits sum.splits outcome.splits)

lemma request_login_status:
  assumes "has_session c"
    and "net (length (posts t)) (http_request c login_payload) = Reply resp"
    and "status resp \<noteq> 200"
  shows "fst (request_login net c t)
           = Inr ((MCPResponse False)
                    \<lparr>error := Some (''Login request failed with status '' @ str_int (status resp))\<rparr>)"
  using assms by (simp add: request_login_def except_Exception_def post_def)

lemma get_portfolio_recommendation_status:
  assumes "has_session c"
    and "net (length (posts t))
           (http_request c (recommendation_payload rupees age amount plan_type risk_level)) = Reply resp"
    and "status resp \<noteq> 200"
  shows "fst (get_portfolio_recommendation rupees net c age amount plan_type risk_level t)
           = Inr ((MCPResponse False)
                    \<lparr>error := Some (''Portfolio request failed with status '' @ str_int (status resp))\<rparr>)"
  using assms by (simp add: get_portfolio_recommendation_def except_Exception_def post_def)

lemma request_login_success_status:
  "fst (request_login net c t) = Inr r \<Longrightarrow> success r \<Longrightarrow>
     \<exists>resp. net (length (posts t)) (http_request c login_payload) = Reply resp \<and> status resp = 200"
  by (auto simp: request_login_def except_Exception_def post_def MCPResponse_def
      split: prod.splits option.splits sum.splits outcome.splits if_splits)

lemma get_portfolio_recommendation_success_status:
  "fst (get_portfolio_recommendation rupees net c age amount plan_type risk_level t) = Inr r \<Longrightarrow>
   success r \<Longrightarrow>
     \<exists>resp. net (length (posts t))
              (http_request c (recommendation_payload rupees age amount plan_type risk_level)) = Reply resp
            \<and> status resp = 200"
  by (auto simp: get_portfolio_recommendation_def except_Exception_def post_def MCPResponse_def
      split: prod.splits option.splits sum.splits outcome.splits if_splits)

text \<open>
  The two retry paths of \<open>initialize_connection\<close>, for a client with a session and
  three attempts. After a response whose status is not 200 the loop goes on at once, with
  no call of \<^verbatim>\<open>asyncio.sleep\<close>; after a request that raised, the handler sleeps 1
  and then 2 before the next attempt.
\<close>

lemma retry_on_status_without_backoff:
  assumes "has_session c" and "retry_count c = 3"
    and "net (length (posts t)) (http_request c init_payload) = Reply r0" and "status r0 \<noteq> 200"
    and "net (Suc (length (posts t))) (http_request c init_payload) = Reply r1" and "status r1 \<noteq> 200"
    and "net (Suc (Suc (length (posts t)))) (http_request c init_payload) = Reply r2"
    and "status r2 = 200" and "json_result r2 = Inr result"
  shows "initialize_connection net c t
           = (Inr ((MCPResponse True)\<lparr>data := optional result\<rparr>), c,
              t\<lparr>posts := posts t @ replicate 3 (http_request c init_payload)\<rparr>)"
proof -
  have "[0 ..< nat (retry_count c)] = [0, 1, 2]"
    using assms(2) by (simp add: upt_rec)
  then show ?thesis
    using assms
    by (simp add: initialize_connection_def except_Exception_def attempt_once_def post_def
        numeral_3_eq_3)
qed

lemma retry_on_fault_with_backoff:
  assumes "has_session c" and "retry_count c = 3"
    and "net (length (posts t)) (http_request c init_payload) = Raises e0"
    and "net (Suc (length (posts t))) (http_request c init_payload) = Raises e1"
    and "net (Suc (Suc (length (posts t)))) (http_request c init_payload) = Reply r2"
    and "status r2 = 200" and "json_result r2 = Inr result"
  shows "initialize_connection net c t
           = (Inr ((MCPResponse True)\<lparr>data := optional result\<rparr>), c,
              t\<lparr>posts := posts t @ replicate 3 (http_request c init_payload),
                sleeps := sleeps t @ [1, 2]\<rparr>)"
proof -
  have "[0 ..< nat (retry_count c)] = [0, 1, 2]"
    using assms(2) by (simp add: upt_rec)
  then show ?thesis
    using assms
    by (simp add: initialize_connection_def except_Exception_def attempt_once_def post_def
        numeral_3_eq_3 sleep_def)
qed

text \<open>
  The result of \<open>initialize_connection\<close> for a client with a session, attempt by
  attempt. The attempt \<open>k\<close> meets the outcome of the request number
  \<open>length (posts t) + k\<close>. While the outcomes are not accepted the loop goes on to the
  next attempt; the first accepted outcome ends it with a success that carries the
  decoded body; when none of the \<open>retry_count\<close> attempts is accepted, the result is the
  failure with the fixed message. A client without a session posts nothing and fails.
\<close>

lemma attempt_once_accepted:
  assumes "has_session c"
    and "accepted (net (length (posts t)) (http_request c init_payload)) = Some v"
  shows "attempt_once net c t
           = (Inr (Some ((MCPResponse True)\<lparr>data := optional v\<rparr>)),
              t\<lparr>posts := posts t @ [http_request c init_payload]\<rparr>)"
  using assms
  by (auto simp: attempt_once_def post_def accepted_def
      split: outcome.splits if_splits sum.splits)

lemma attempt_once_rejected:
  assumes "has_session c"
    and "accepted (net (length (posts t)) (http_request c init_payload)) = None"
  shows "\<exists>x. attempt_once net c t = (x, t\<lparr>posts := posts t @ [http_request c init_payload]\<rparr>)
             \<and> (x = Inr None \<or> (\<exists>e. x = Inl e))"
  using assms
  by (auto simp: attempt_once_def post_def accepted_def
      split: outcome.splits if_splits sum.splits)

lemma retry_loop_exhausted:
  assumes "has_session c"
    and "\<forall>j < length attempts.
           accepted (net (length (posts t) + j) (http_request c init_payload)) = None"
  shows "fst (retry_loop net c attempts t) = None
       \<and> posts (snd (retry_loop net c attempts t))
           = posts t @ replicate (length attempts) (http_request c init_payload)"
  using assms(2)
proof (induction attempts arbitrary: t)
  case Nil
  show ?case by simp
next
  case (Cons attempt rest)
  let ?q = "http_request c init_payload"
  let ?t2 = "t\<lparr>posts := posts t @ [?q]\<rparr>"
  from Cons.prems have "accepted (net (length (posts t)) ?q) = None"
    by auto
  with attempt_once_rejected [where c = c and net = net and t = t] assms(1)
  obtain x where x: "attempt_once net c t = (x, ?t2)" "x = Inr None \<or> (\<exists>e. x = Inl e)"
    by blast
  then obtain t3 where t3: "retry_loop net c (attempt # rest) t = retry_loop net c rest t3"
      "posts t3 = posts ?t2"
    by (auto simp: sleep_def)
  have "\<forall>j < length rest. accepted (net (length (posts t3) + j) ?q) = None"
  proof (intro allI impI)
    fix j assume "j < length rest"
    then have "Suc j < length (attempt # rest)" by simp
    with Cons.prems have "accepted (net (length (posts t) + Suc j) ?q) = None" by blast
    then show "accepted (net (length (posts t3) + j) ?q) = None"
      using t3(2) by simp
  qed
  with Cons.IH [where t = t3] t3 show ?case
    by (simp add: replicate_app_Cons_same)
qed

lemma retry_loop_accepts:
  assumes "has_session c"
    and "k < length attempts"
    and "\<forall>j < k. accepted (net (length (posts t) + j) (http_request c init_payload)) = None"
    and "accepted (net (length (posts t) + k) (http_request c init_payload)) = Some v"
  shows "fst (retry_loop net c attempts t) = Some ((MCPResponse True)\<lparr>data := optional v\<rparr>)
       \<and> posts (snd (retry_loop net c attempts t))
           = posts t @ replicate (Suc k) (http_request c init_payload)"
  using assms(2-4)
proof (induction attempts arbitrary: t k)
  case Nil
  then show ?case by simp
next
  case (Cons attempt rest)
  let ?q = "http_request c init_payload"
  let ?t2 = "t\<lparr>posts := posts t @ [?q]\<rparr>"
  show ?case
  proof (cases k)
    case 0
    with Cons.prems(3) have "accepted (net (length (posts t)) ?q) = Some v"
      by simp
    with attempt_once_accepted [where c = c and net = net and t = t and v = v] assms(1) 0
    show ?thesis
      by simp
  next
    case (Suc k')
    with Cons.prems(2) have "accepted (net (length (posts t)) ?q) = None"
      by auto
    with attempt_once_rejected [where c = c and net = net and t = t] assms(1)
    obtain x where x: "attempt_once net c t = (x, ?t2)" "x = Inr None \<or> (\<exists>e. x = Inl e)"
      by blast
    then obtain t3 where t3: "retry_loop net c (attempt # rest) t = retry_loop net c rest t3"
        "posts t3 = posts ?t2"
      by (auto simp: sleep_def)
    have 1: "k' < length rest"
      using Cons.prems(1) Suc by simp
    have 2: "\<forall>j < k'. accepted (net (length (posts t3) + j) ?q) = None"
    proof (intro allI impI)
      fix j assume "j < k'"
      then have "Suc j < k" using Suc by simp
      with Cons.prems(2) have "accepted (net (length (posts t) + Suc j) ?q) = None" by blast
      then show "accepted (net (length (posts t3) + j) ?q) = None"
        using t3(2) by simp
    qed
    have 3: "accepted (net (length (posts t3) + k') ?q) = Some v"
      using Cons.prems(3) Suc t3(2) by simp
    from Cons.IH [where t = t3 and k = k'] 1 2 3 t3 Suc show ?thesis
      by (simp add: replicate_app_Cons_same)
  qed
qed

lemma retry_loop_no_session:
  assumes "\<not> has_session c"
  shows "fst (retry_loop net c attempts t) = None
       \<and> posts (snd (retry_loop net c attempts t)) = posts t"
proof (induction attempts arbitrary: t)
  case Nil
  show ?case by simp
next
  case (Cons attempt rest)
  from assms obtain e where "attempt_once net c t = (Inl e, t)"
    by (simp add: attempt_once_def post_def)
  then obtain t3 where "retry_loop net c (attempt # rest) t = retry_loop net c rest t3"
      "posts t3 = posts t"
    by (auto simp: sleep_def)
  with Cons.IH [of t3] show ?case by simp
qed

lemma initialize_connection_accepts:
  assumes "has_session c"
    and "k < nat (retry_count c)"
    and "\<forall>j < k. accepted (net (length (posts t) + j) (http_request c init_payload)) = None"
    and "accepted (net (length (posts t) + k) (http_request c init_payload)) = Some v"
  shows "fst (initialize_connection net c t) = Inr ((MCPResponse True)\<lparr>data := optional v\<rparr>)
       \<and> posts (snd (snd (initialize_connection net c t)))
           = posts t @ replicate (Suc k) (http_request c init_payload)"
proof -
  have "k < length [0 ..< nat (retry_count c)]"
    using assms(2) by simp
  with retry_loop_accepts [where c = c and k = k and attempts = "[0 ..< nat (retry_count c)]"
      and net = net and t = t and v = v] assms(1,3,4)
  show ?thesis
    by (cases "retry_loop net c [0 ..< nat (retry_count c)] t")
      (simp add: initialize_connection_def except_Exception_def)
qed

lemma initialize_connection_exhausted:
  assumes "has_session c"
    and "\<forall>j < nat (retry_count c).
           accepted (net (length (posts t) + j) (http_request c init_payload)) = None"
  shows "fst (initialize_connection net c t)
           = Inr ((MCPResponse False)
                    \<lparr>error := Some ''Failed to initialize MCP connection after all retries''\<rparr>)
       \<and> posts (snd (snd (initialize_connection net c t)))
           = posts t @ replicate (nat (retry_count c)) (http_request c init_payload)"
proof -
  have "\<forall>j < length [0 ..< nat (retry_count c)].
           accepted (net (length (posts t) + j) (http_request c init_payload)) = None"
    using assms(2) by simp
  with retry_loop_exhausted [where c = c and attempts = "[0 ..< nat (retry_count c)]"
      and net = net and t = t] assms(1)
  show ?thesis
    by (cases "retry_loop net c [0 ..< nat (retry_count c)] t")
      (simp add: initialize_connection_def except_Exception_def)
qed

lemma initialize_connection_no_session:
  assumes "\<not> has_session c"
  shows "fst (initialize_connection net c t)
           = Inr ((MCPResponse False)
                    \<lparr>error := Some ''Failed to initialize MCP connection after all retries''\<rparr>)
       \<and> posts (snd (snd (initialize_connection net c t))) = posts t"
  using retry_loop_no_session [OF assms, of net "[0 ..< nat (retry_count c)]" t]
  by (cases "retry_loop net c [0 ..< nat (retry_count c)] t")
    (simp add: initialize_connection_def except_Exception_def)

lemma initialize_connection_success_accepted:
  assumes "fst (initialize_connection net c t) = Inr r" and "success r"
  shows "has_session c
       \<and> (\<exists>k < nat (retry_count c). \<exists>v.
             accepted (net (length (posts t) + k) (http_request c init_payload)) = Some v
             \<and> (\<forall>j < k. accepted (net (length (posts t) + j) (http_request c init_payload)) = None)
             \<and> r = (MCPResponse True)\<lparr>data := optional v\<rparr>)"
proof -
  let ?P = "\<lambda>k. accepted (net (length (posts t) + k) (http_request c init_payload)) \<noteq> None"
  have s: "has_session c"
  proof (rule ccontr)
    assume "\<not> has_session c"
    from initialize_connection_no_session [OF this, of net t] assms show False
      by (simp add: MCPResponse_def)
  qed
  have "\<exists>k < nat (retry_count c). ?P k"
  proof (rule ccontr)
    assume "\<not> (\<exists>k < nat (retry_count c). ?P k)"
    then have "\<forall>j < nat (retry_count c).
           accepted (net (length (posts t) + j) (http_request c init_payload)) = None"
      by auto
    with initialize_connection_exhausted [where c = c and net = net and t = t] s assms show False
      by (simp add: MCPResponse_def)
  qed
  then obtain k0 where k0: "k0 < nat (retry_count c)" "?P k0"
    by blast
  define k where "k = (LEAST k. ?P k)"
  have pk: "?P k"
    unfolding k_def using k0(2) by (rule LeastI)
  have lk: "k \<le> k0"
    unfolding k_def using k0(2) by (rule Least_le)
  have nk: "\<forall>j < k. accepted (net (length (posts t) + j) (http_request c init_payload)) = None"
    unfolding k_def using not_less_Least by blast
  from pk obtain v where v: "accepted (net (length (posts t) + k) (http_request c init_payload)) = Some v"
    by auto
  from lk k0(1) have kn: "k < nat (retry_count c)"
    by simp
  from initialize_connection_accepts [where c = c and k = k and net = net and t = t and v = v]
    s kn nk v assms(1)
  have "r = (MCPResponse True)\<lparr>data := optional v\<rparr>"
    by simp
  with s kn v nk show ?thesis
    by blast
qed

lemma accepted_Some:
  "accepted out = Some v \<longleftrightarrow>
     (\<exists>resp. out = Reply resp \<and> status resp = 200 \<and> json_result resp = Inr v)"
  by (auto simp: accepted_def split: outcome.splits sum.splits if_splits)

lemma request_login_no_session:
  assumes "\<not> has_session c"
  shows "fst (request_login net c t)
           = Inr ((MCPResponse False)
                    \<lparr>error := Some (''Login request error: '' @ quoted ''NoneType''
                                      @ '' object has no attribute '' @ quoted ''post'')\<rparr>)"
  using assms by (simp add: request_login_def except_Exception_def post_def)

lemma get_portfolio_recommendation_no_session:
  assumes "\<not> has_session c"
  shows "fst (get_portfolio_recommendation rupees net c age amount plan_type risk_level t)
           = Inr ((MCPResponse False)
                    \<lparr>error := Some (''Portfolio recommendation error: '' @ quoted ''NoneType''
                                      @ '' object has no attribute '' @ quoted ''post'')\<rparr>)"
  using assms by (simp add: get_portfolio_recommendation_def except_Exception_def post_def)

text \<open>
  Claim C2. Whatever the network does (a request that raises, a response of any status,
  a body that fails to decode or decodes to any value) and whatever the arguments, each
  of \<open>initialize_connection\<close>, \<open>request_login\<close> and
  \<open>get_portfolio_recommendation\<close> returns an envelope (\<open>Inr\<close>) and raises nothing
  (\<open>Inl\<close>); the envelope is a success or carries an error message. When the request
  of \<open>request_login\<close> or of \<open>get_portfolio_recommendation\<close> raises, or the body of
  its response fails to decode, the envelope is a failure whose message ends with the
  text of the exception. When every attempt of \<open>initialize_connection\<close> meets a fault
  (or another outcome that is not accepted), the envelope is the failure with the fixed
  message; when an attempt is accepted after faults, it is the success with the decoded
  body. A client without a session gets a failure envelope from each operation.
\<close>

theorem operations_return_envelopes:
  "(\<exists>r. fst (initialize_connection net c t) = Inr r \<and> (success r \<or> (\<exists>m. error r = Some m)))
   \<and> (\<exists>r. fst (request_login net c t) = Inr r \<and> (success r \<or> (\<exists>m. error r = Some m)))
   \<and> (\<exists>r. fst (get_portfolio_recommendation rupees net c age amount plan_type risk_level t) = Inr r
          \<and> (success r \<or> (\<exists>m. error r = Some m)))
   \<and> (has_session c
      \<and> (net (length (posts t)) (http_request c login_payload) = Raises e
         \<or> (\<exists>resp. net (length (posts t)) (http_request c login_payload) = Reply resp
               \<and> status resp = 200 \<and> json_result resp = Inl e)) \<longrightarrow>
      fst (request_login net c t)
        = Inr ((MCPResponse False)\<lparr>error := Some (''Login request error: '' @ str_exn e)\<rparr>))
   \<and> (has_session c
      \<and> (net (length (posts t))
            (http_request c (recommendation_payload rupees age amount plan_type risk_level)) = Raises e'
         \<or> (\<exists>resp. net (length (posts t))
                     (http_request c (recommendation_payload rupees age amount plan_type risk_level))
                     = Reply resp
               \<and> status resp = 200 \<and> json_result resp = Inl e')) \<longrightarrow>
      fst (get_portfolio_recommendation rupees net c age amount plan_type risk_level t)
        = Inr ((MCPResponse False)
                 \<lparr>error := Some (''Portfolio recommendation error: '' @ str_exn e')\<rparr>))
   \<and> (has_session c
      \<and> (\<forall>j < nat (retry_count c).
            accepted (net (length (posts t) + j) (http_request c init_payload)) = None) \<longrightarrow>
      fst (initialize_connection net c t)
        = Inr ((MCPResponse False)
                 \<lparr>error := Some ''Failed to initialize MCP connection after all retries''\<rparr>))
   \<and> (has_session c \<and> k < nat (retry_count c)
      \<and> (\<forall>j < k. accepted (net (length (posts t) + j) (http_request c init_payload)) = None)
      \<and> accepted (net (length (posts t) + k) (http_request c init_payload)) = Some v \<longrightarrow>
      fst (initialize_connection net c t) = Inr ((MCPResponse True)\<lparr>data := optional v\<rparr>))
   \<and> (\<not> has_session c \<longrightarrow>
      fst (initialize_connection net c t)
        = Inr ((MCPResponse False)
                 \<lparr>error := Some ''Failed to initialize MCP connection after all retries''\<rparr>)
      \<and> fst (request_login net c t)
        = Inr ((MCPResponse False)
                 \<lparr>error := Some (''Login request error: '' @ quoted ''NoneType''
                                   @ '' object has no attribute '' @ quoted ''post'')\<rparr>)
      \<and> fst (get_portfolio_recommendation rupees net c age amount plan_type risk_level t)
        = Inr ((MCPResponse False)
                 \<lparr>error := Some (''Portfolio recommendation error: '' @ quoted ''NoneType''
                                   @ '' object has no attribute '' @ quoted ''post'')\<rparr>))"
proof -
  have "\<exists>r. fst (initialize_connection net c t) = Inr r"
    unfolding initialize_connection_def by (rule except_Exception_returns)
  then have 1: "\<exists>r. fst (initialize_connection net c t) = Inr r
                  \<and> (success r \<or> (\<exists>m. error r = Some m))"
    using initialize_connection_envelope [of net c t] by (metis not_Some_eq)
  have "\<exists>r. fst (request_login net c t) = Inr r"
    unfolding request_login_def by (rule except_Exception_returns)
  then have 2: "\<exists>r. fst (request_login net c t) = Inr r \<and> (success r \<or> (\<exists>m. error r = Some m))"
    using request_login_envelope [of net c t] by (metis not_Some_eq)
  have "\<exists>r. fst (get_portfolio_recommendation rupees net c age amount plan_type risk_level t) = Inr r"
    unfolding get_portfolio_recommendation_def by (rule except_Exception_returns)
  then have 3: "\<exists>r. fst (get_portfolio_recommendation rupees net c age amount plan_type risk_level t)
                       = Inr r
                  \<and> (success r \<or> (\<exists>m. error r = Some m))"
    using get_portfolio_recommendation_envelope [of rupees net c age amount plan_type risk_level t]
    by (metis not_Some_eq)
  have 4: "fst (request_login net c t)
        = Inr ((MCPResponse False)\<lparr>error := Some (''Login request error: '' @ str_exn e)\<rparr>)"
    if "has_session c
      \<and> (net (length (posts t)) (http_request c login_payload) = Raises e
         \<or> (\<exists>resp. net (length (posts t)) (http_request c login_payload) = Reply resp
               \<and> status resp = 200 \<and> json_result resp = Inl e))"
    using that request_login_fault [of c net t e] by blast
  have 5: "fst (get_portfolio_recommendation rupees net c age amount plan_type risk_level t)
        = Inr ((MCPResponse False)
                 \<lparr>error := Some (''Portfolio recommendation error: '' @ str_exn e')\<rparr>)"
    if "has_session c
      \<and> (net (length (posts t))
            (http_request c (recommendation_payload rupees age amount plan_type risk_level)) = Raises e'
         \<or> (\<exists>resp. net (length (posts t))
                     (http_request c (recommendation_payload rupees age amount plan_type risk_level))
                     = Reply resp
               \<and> status resp = 200 \<and> json_result resp = Inl e'))"
    using that get_portfolio_recommendation_fault [of c net t rupees age amount plan_type risk_level e']
    by blast
  have 6: "fst (initialize_connection net c t)
        = Inr ((MCPResponse False)
                 \<lparr>error := Some ''Failed to initialize MCP connection after all retries''\<rparr>)"
    if "has_session c
      \<and> (\<forall>j < nat (retry_count c).
            accepted (net (length (posts t) + j) (http_request c init_payload)) = None)"
    using that initialize_connection_exhausted [where c = c and net = net and t = t] by blast
  have 7: "fst (initialize_connection net c t) = Inr ((MCPResponse True)\<lparr>data := optional v\<rparr>)"
    if "has_session c \<and> k < nat (retry_count c)
      \<and> (\<forall>j < k. accepted (net (length (posts t) + j) (http_request c init_payload)) = None)
      \<and> accepted (net (length (posts t) + k) (http_request c init_payload)) = Some v"
    using that initialize_connection_accepts [where c = c and net = net and t = t and k = k and v = v]
    by blast
  have 8: "fst (initialize_connection net c t)
        = Inr ((MCPResponse False)
                 \<lparr>error := Some ''Failed to initialize MCP connection after all retries''\<rparr>)
      \<and> fst (request_login net c t)
        = Inr ((MCPResponse False)
                 \<lparr>error := Some (''Login request error: '' @ quoted ''NoneType''
                                   @ '' object has no attribute '' @ quoted ''post'')\<rparr>)
      \<and> fst (get_portfolio_recommendation rupees net c age amount plan_type risk_level t)
        = Inr ((MCPResponse False)
                 \<lparr>error := Some (''Portfolio recommendation error: '' @ quoted ''NoneType''
                                   @ '' object has no attribute '' @ quoted ''post'')\<rparr>)"
    if "\<not> has_session c"
    using that initialize_connection_no_session [where c = c and net = net and t = t]
      request_login_no_session [where c = c and net = net and t = t]
      get_portfolio_recommendation_no_session [where c = c and net = net and t = t
        and rupees = rupees and age = age and amount = amount and plan_type = plan_type
        and risk_level = risk_level]
    by blast
  from 1 2 3 4 5 6 7 8 show ?thesis
    by (intro conjI impI) (assumption | blast)+
qed

theorem operations_return_envelopes_witness:
  "fst (request_login (scripted [] (Raises (TransportError ''Connection refused'')))
          (aenter new_client) (no_trace :: unit trace))
     = Inr \<lparr>success = False, data = None,
            error = Some ''Login request error: Connection refused'', login_url = None\<rparr>
   \<and> fst (get_portfolio_recommendation (\<lambda>a. ''Rs 10,000'')
            (scripted [] (Reply \<lparr>status = 200, json_result = Inl (DecodeError ''Expecting value'')\<rparr>))
            (aenter new_client) 30 () ''SIP'' ''High'' (no_trace :: unit trace))
     = Inr \<lparr>success = False, data = None,
            error = Some ''Portfolio recommendation error: Expecting value'', login_url = None\<rparr>
   \<and> fst (initialize_connection (scripted [] (Raises (TransportError ''Connection refused'')))
            (aenter new_client) (no_trace :: unit trace))
     = Inr \<lparr>success = False, data = None,
            error = Some ''Failed to initialize MCP connection after all retries'',
            login_url = None\<rparr>
   \<and> fst (initialize_connection
            (scripted [Raises (TransportError ''Connection refused''),
                       Reply \<lparr>status = 200, json_result = Inl (DecodeError ''Expecting value'')\<rparr>]
               (reply 200 (JDict [(''ok'', JBool True)])))
            (aenter new_client) (no_trace :: unit trace))
     = Inr \<lparr>success = True, data = Some (JDict [(''ok'', JBool True)]), error = None,
            login_url = None\<rparr>
   \<and> fst (initialize_connection (scripted [] (reply 200 JNull)) new_client (no_trace :: unit trace))
     = Inr \<lparr>success = False, data = None,
            error = Some ''Failed to initialize MCP connection after all retries'',
            login_url = None\<rparr>
   \<and> fst (request_login (scripted [] (reply 200 JNull)) new_client (no_trace :: unit trace))
     = Inr \<lparr>success = False, data = None,
            error = Some (''Login request error: '' @ quoted ''NoneType''
                          @ '' object has no attribute '' @ quoted ''post''),
            login_url = None\<rparr>"
proof -
  let ?c = "aenter new_client"
  let ?t = "no_trace :: unit trace"
  let ?e1 = "TransportError ''Connection refused''"
  let ?e2 = "DecodeError ''Expecting value''"
  let ?n1 = "scripted [] (Raises ?e1) :: unit network"
  let ?n2 = "scripted [] (Reply \<lparr>status = 200, json_result = Inl ?e2\<rparr>) :: unit network"
  let ?n3 = "scripted [Raises ?e1, Reply \<lparr>status = 200, json_result = Inl ?e2\<rparr>]
               (reply 200 (JDict [(''ok'', JBool True)])) :: unit network"
  let ?n4 = "scripted [] (reply 200 JNull) :: unit network"
  let ?rup = "\<lambda>a :: unit. ''Rs 10,000''"
  have h: "has_session ?c" "nat (retry_count ?c) = 3" "length (posts ?t) = 0"
    by (simp_all add: aenter_def new_client_def no_trace_def)
  have h0: "\<not> has_session new_client"
    by (simp add: new_client_def)
  have a1: "\<forall>j < 3. accepted (?n1 (0 + j) (http_request ?c init_payload)) = None"
    by (simp add: scripted_def accepted_def)
  have a3: "\<forall>j < 2. accepted (?n3 (0 + j) (http_request ?c init_payload)) = None"
    by (auto simp: scripted_def accepted_def dest!: less_2_cases)
  have b3: "accepted (?n3 (0 + 2) (http_request ?c init_payload)) = Some (JDict [(''ok'', JBool True)])"
    by (simp add: scripted_def accepted_def reply_def)
  have 1: "fst (request_login ?n1 ?c ?t)
             = Inr \<lparr>success = False, data = None,
                    error = Some ''Login request error: Connection refused'', login_url = None\<rparr>"
    using operations_return_envelopes [where c = ?c and t = ?t and net = ?n1 and e = ?e1] h
    by (simp add: scripted_def MCPResponse_def)
  have 2: "fst (get_portfolio_recommendation ?rup ?n2 ?c 30 () ''SIP'' ''High'' ?t)
             = Inr \<lparr>success = False, data = None,
                    error = Some ''Portfolio recommendation error: Expecting value'',
                    login_url = None\<rparr>"
    using operations_return_envelopes [where c = ?c and t = ?t and net = ?n2 and rupees = ?rup
        and age = 30 and amount = "()" and plan_type = "''SIP''" and risk_level = "''High''"
        and e' = ?e2] h
    by (simp add: scripted_def MCPResponse_def)
  have 3: "fst (initialize_connection ?n1 ?c ?t)
             = Inr \<lparr>success = False, data = None,
                    error = Some ''Failed to initialize MCP connection after all retries'',
                    login_url = None\<rparr>"
    using operations_return_envelopes [where c = ?c and t = ?t and net = ?n1] h a1
    by (simp add: MCPResponse_def)
  have 4: "fst (initialize_connection ?n3 ?c ?t)
             = Inr \<lparr>success = True, data = Some (JDict [(''ok'', JBool True)]), error = None,
                    login_url = None\<rparr>"
    using operations_return_envelopes [where c = ?c and t = ?t and net = ?n3 and k = 2
        and v = "JDict [(''ok'', JBool True)]"] h a3 b3
    by (simp add: MCPResponse_def)
  have 5: "fst (initialize_connection ?n4 new_client ?t)
             = Inr \<lparr>success = False, data = None,
                    error = Some ''Failed to initialize MCP connection after all retries'',
                    login_url = None\<rparr>"
    and 6: "fst (request_login ?n4 new_client ?t)
             = Inr \<lparr>success = False, data = None,
                    error = Some (''Login request error: '' @ quoted ''NoneType''
                                  @ '' object has no attribute '' @ quoted ''post''),
                    login_url = None\<rparr>"
    using operations_return_envelopes [where c = new_client and t = ?t and net = ?n4] h0
    by (simp_all add: MCPResponse_def)
  from 1 2 3 4 5 6 show ?thesis
    by blast
qed

text \<open>
  Claim C1. The claim asks for two backoff sleeps, of 1 and 2, when the handshake is
  answered with status 500 twice and then with status 200. On that run the code posts
  three times and succeeds, and the list of sleeps is empty: the sleep of line 84 is in
  the \<^verbatim>\<open>except\<close> handler only, which a response of status 500 does not reach.
\<close>

theorem initialize_connection_500_500_200:
  "initialize_connection
     (scripted [reply 500 JNull, reply 500 JNull] (reply 200 (JDict [(''ok'', JBool True)])))
     (aenter new_client) (no_trace :: unit trace)
   = (Inr \<lparr>success = True, data = Some (JDict [(''ok'', JBool True)]), error = None,
            login_url = None\<rparr>,
      aenter new_client,
      \<lparr>posts = [http_request (aenter new_client) init_payload,
                http_request (aenter new_client) init_payload,
                http_request (aenter new_client) init_payload],
       sleeps = []\<rparr>)"
  by code_simp

text \<open>
  Claim C6, as stated, fails for \<open>initialize_connection\<close>: when every attempt is
  answered with status 500, the error message of the failure envelope is the fixed text
  about exhausted retries, and the digits 500 do not occur in it.
\<close>

theorem initialize_failure_without_status:
  "fst (initialize_connection (scripted [] (reply 500 JNull)) (aenter new_client)
          (no_trace :: unit trace))
     = Inr \<lparr>success = False, data = None,
            error = Some ''Failed to initialize MCP connection after all retries'',
            login_url = None\<rparr>
   \<and> \<not> sublist (str_int 500) ''Failed to initialize MCP connection after all retries''"
  by code_simp

text \<open>
  Claim C6, amended. For \<open>request_login\<close> and \<open>get_portfolio_recommendation\<close>, a
  response whose status is not 200 gives a failure envelope whose error message ends
  with the decimal status code. For \<open>initialize_connection\<close> a response whose status
  is not 200 is followed by the next attempt: after \<open>k\<close> such responses, a response
  with status 200 and a decodable body at attempt \<open>k\<close> gives the success, after
  \<open>k + 1\<close> requests; when all \<open>retry_count\<close> attempts are answered with another
  status, and on every other failure, the envelope carries the fixed message
  \<^verbatim>\<open>Failed to initialize MCP connection after all retries\<close>. In all three
  operations a success envelope is returned only when a response with status 200 was
  received: for \<open>initialize_connection\<close> it is the response to the last request posted.
\<close>

theorem status_discriminator:
  "(has_session c \<and> net (length (posts t)) (http_request c login_payload) = Reply resp
      \<and> status resp \<noteq> 200 \<longrightarrow>
      fst (request_login net c t)
        = Inr ((MCPResponse False)
                 \<lparr>error := Some (''Login request failed with status '' @ str_int (status resp))\<rparr>))
   \<and> (has_session c
      \<and> net (length (posts t))
           (http_request c (recommendation_payload rupees age amount plan_type risk_level)) = Reply resp'
      \<and> status resp' \<noteq> 200 \<longrightarrow>
      fst (get_portfolio_recommendation rupees net c age amount plan_type risk_level t)
        = Inr ((MCPResponse False)
                 \<lparr>error := Some (''Portfolio request failed with status '' @ str_int (status resp'))\<rparr>))
   \<and> (has_session c \<and> k < nat (retry_count c)
      \<and> (\<forall>j < k. \<exists>r. net (length (posts t) + j) (http_request c init_payload) = Reply r
                      \<and> status r \<noteq> 200)
      \<and> net (length (posts t) + k) (http_request c init_payload) = Reply resp''
      \<and> status resp'' = 200 \<and> json_result resp'' = Inr v \<longrightarrow>
      fst (initialize_connection net c t) = Inr ((MCPResponse True)\<lparr>data := optional v\<rparr>)
      \<and> posts (snd (snd (initialize_connection net c t)))
          = posts t @ replicate (Suc k) (http_request c init_payload))
   \<and> (has_session c
      \<and> (\<forall>j < nat (retry_count c).
            \<exists>r. net (length (posts t) + j) (http_request c init_payload) = Reply r
                \<and> status r \<noteq> 200) \<longrightarrow>
      fst (initialize_connection net c t)
        = Inr ((MCPResponse False)
                 \<lparr>error := Some ''Failed to initialize MCP connection after all retries''\<rparr>)
      \<and> posts (snd (snd (initialize_connection net c t)))
          = posts t @ replicate (nat (retry_count c)) (http_request c init_payload))
   \<and> (fst (initialize_connection net c t) = Inr r1 \<and> \<not> success r1 \<longrightarrow>
      error r1 = Some ''Failed to initialize MCP connection after all retries'')
   \<and> (fst (initialize_connection net c t) = Inr r1 \<and> success r1 \<longrightarrow>
      has_session c
      \<and> (\<exists>k' < nat (retry_count c). \<exists>r v'.
            net (length (posts t) + k') (http_request c init_payload) = Reply r \<and> status r = 200
            \<and> json_result r = Inr v' \<and> r1 = (MCPResponse True)\<lparr>data := optional v'\<rparr>
            \<and> posts (snd (snd (initialize_connection net c t)))
                = posts t @ replicate (Suc k') (http_request c init_payload)))
   \<and> (fst (request_login net c t) = Inr r2 \<and> success r2 \<longrightarrow>
      (\<exists>r. net (length (posts t)) (http_request c login_payload) = Reply r \<and> status r = 200))
   \<and> (fst (get_portfolio_recommendation rupees net c age amount plan_type risk_level t) = Inr r3
      \<and> success r3 \<longrightarrow>
      (\<exists>r. net (length (posts t))
              (http_request c (recommendation_payload rupees age amount plan_type risk_level))
              = Reply r
           \<and> status r = 200))"
proof -
  let ?q = "http_request c init_payload"
  have rej: "accepted (net n ?q) = None" if "\<exists>r. net n ?q = Reply r \<and> status r \<noteq> 200" for n
    using that by (auto simp: accepted_def)
  have 3: "fst (initialize_connection net c t) = Inr ((MCPResponse True)\<lparr>data := optional v\<rparr>)
      \<and> posts (snd (snd (initialize_connection net c t))) = posts t @ replicate (Suc k) ?q"
    if h: "has_session c \<and> k < nat (retry_count c)
      \<and> (\<forall>j < k. \<exists>r. net (length (posts t) + j) ?q = Reply r \<and> status r \<noteq> 200)
      \<and> net (length (posts t) + k) ?q = Reply resp''
      \<and> status resp'' = 200 \<and> json_result resp'' = Inr v"
  proof -
    from h have "\<forall>j < k. accepted (net (length (posts t) + j) ?q) = None"
      using rej by blast
    moreover from h have "accepted (net (length (posts t) + k) ?q) = Some v"
      by (simp add: accepted_def)
    ultimately show ?thesis
      using h initialize_connection_accepts [where c = c and net = net and t = t and k = k and v = v]
      by blast
  qed
  have 4: "fst (initialize_connection net c t)
        = Inr ((MCPResponse False)
                 \<lparr>error := Some ''Failed to initialize MCP connection after all retries''\<rparr>)
      \<and> posts (snd (snd (initialize_connection net c t)))
          = posts t @ replicate (nat (retry_count c)) ?q"
    if h: "has_session c
      \<and> (\<forall>j < nat (retry_count c).
            \<exists>r. net (length (posts t) + j) ?q = Reply r \<and> status r \<noteq> 200)"
  proof -
    from h have "\<forall>j < nat (retry_count c). accepted (net (length (posts t) + j) ?q) = None"
      using rej by blast
    with h show ?thesis
      using initialize_connection_exhausted [where c = c and net = net and t = t] by blast
  qed
  have 6: "has_session c
      \<and> (\<exists>k' < nat (retry_count c). \<exists>r v'.
            net (length (posts t) + k') ?q = Reply r \<and> status r = 200
            \<and> json_result r = Inr v' \<and> r1 = (MCPResponse True)\<lparr>data := optional v'\<rparr>
            \<and> posts (snd (snd (initialize_connection net c t)))
                = posts t @ replicate (Suc k') ?q)"
    if h: "fst (initialize_connection net c t) = Inr r1 \<and> success r1"
  proof -
    from initialize_connection_success_accepted [where net = net and c = c and t = t and r = r1] h
    obtain k' v' where k: "has_session c" "k' < nat (retry_count c)"
        "accepted (net (length (posts t) + k') ?q) = Some v'"
        "\<forall>j < k'. accepted (net (length (posts t) + j) ?q) = None"
        "r1 = (MCPResponse True)\<lparr>data := optional v'\<rparr>"
      by blast
    from k(3) obtain r where r: "net (length (posts t) + k') ?q = Reply r" "status r = 200"
        "json_result r = Inr v'"
      using accepted_Some by blast
    from initialize_connection_accepts [where c = c and net = net and t = t and k = k' and v = v']
      k(1-4)
    have "posts (snd (snd (initialize_connection net c t))) = posts t @ replicate (Suc k') ?q"
      by blast
    with k r show ?thesis
      by blast
  qed
  from 3 4 6
    request_login_status [of c net t resp]
    get_portfolio_recommendation_status [of c net t rupees age amount plan_type risk_level resp']
    initialize_connection_failure [of net c t r1]
    request_login_success_status [of net c t r2]
    get_portfolio_recommendation_success_status [of rupees net c age amount plan_type risk_level t r3]
  show ?thesis
    by (intro conjI impI) (assumption | elim conjE, assumption | elim conjE, blast | blast)+
qed

theorem status_discriminator_witness:
  "fst (request_login (scripted [] (reply 500 JNull)) (aenter new_client) (no_trace :: unit trace))
     = Inr \<lparr>success = False, data = None,
            error = Some ''Login request failed with status 500'', login_url = None\<rparr>
   \<and> fst (get_portfolio_recommendation (\<lambda>a. ''Rs 10,000'') (scripted [] (reply 503 JNull))
            (aenter new_client) 30 () ''SIP'' ''High'' (no_trace :: unit trace))
     = Inr \<lparr>success = False, data = None,
            error = Some ''Portfolio request failed with status 503'', login_url = None\<rparr>
   \<and> fst (initialize_connection
            (scripted [reply 500 JNull, reply 503 JNull] (reply 200 (JDict [(''ok'', JBool True)])))
            (aenter new_client) (no_trace :: unit trace))
     = Inr \<lparr>success = True, data = Some (JDict [(''ok'', JBool True)]), error = None,
            login_url = None\<rparr>
   \<and> posts (snd (snd (initialize_connection
            (scripted [reply 500 JNull, reply 503 JNull] (reply 200 (JDict [(''ok'', JBool True)])))
            (aenter new_client) (no_trace :: unit trace))))
     = replicate 3 (http_request (aenter new_client) init_payload)
   \<and> fst (initialize_connection (scripted [] (reply 500 JNull)) (aenter new_client)
            (no_trace :: unit trace))
     = Inr \<lparr>success = False, data = None,
            error = Some ''Failed to initialize MCP connection after all retries'',
            login_url = None\<rparr>
   \<and> posts (snd (snd (initialize_connection (scripted [] (reply 500 JNull)) (aenter new_client)
            (no_trace :: unit trace))))
     = replicate 3 (http_request (aenter new_client) init_payload)
   \<and> (\<exists>k' < 3. \<exists>r.
         scripted [reply 500 JNull, reply 503 JNull] (reply 200 (JDict [(''ok'', JBool True)]))
           k' (http_request (aenter new_client) (init_payload :: unit payload)) = Reply r
         \<and> status r = 200
         \<and> posts (snd (snd (initialize_connection
              (scripted [reply 500 JNull, reply 503 JNull] (reply 200 (JDict [(''ok'', JBool True)])))
              (aenter new_client) (no_trace :: unit trace))))
           = replicate (Suc k') (http_request (aenter new_client) init_payload))
   \<and> fst (request_login
            (scripted [] (reply 200 (text_content ''URL: https://kite.zerodha.com/connect/login'')))
            (aenter new_client) (no_trace :: unit trace))
     = Inr \<lparr>success = True, data = None, error = None,
            login_url = Some ''https://kite.zerodha.com/connect/login''\<rparr>
   \<and> (\<exists>r. scripted [] (reply 200 (text_content ''URL: https://kite.zerodha.com/connect/login'')) 0
              (http_request (aenter new_client) (login_payload :: unit payload)) = Reply r
            \<and> status r = 200)
   \<and> fst (get_portfolio_recommendation (\<lambda>a. ''Rs 10,000'')
            (scripted [] (reply 200 (JDict [(''ok'', JBool True)])))
            (aenter new_client) 30 () ''SIP'' ''High'' (no_trace :: unit trace))
     = Inr \<lparr>success = True, data = Some (JDict [(''ok'', JBool True)]), error = None,
            login_url = None\<rparr>
   \<and> (\<exists>r. scripted [] (reply 200 (JDict [(''ok'', JBool True)])) 0
              (http_request (aenter new_client)
                 (recommendation_payload (\<lambda>a. ''Rs 10,000'') 30 () ''SIP'' ''High'')) = Reply r
            \<and> status r = 200)"
proof -
  let ?c = "aenter new_client"
  let ?t = "no_trace :: unit trace"
  let ?ok = "JDict [(''ok'', JBool True)] :: unit json"
  let ?n5 = "scripted [] (reply 500 JNull) :: unit network"
  let ?n53 = "scripted [] (reply 503 JNull) :: unit network"
  let ?n3 = "scripted [reply 500 JNull, reply 503 JNull] (reply 200 ?ok) :: unit network"
  let ?nl = "scripted [] (reply 200 (text_content ''URL: https://kite.zerodha.com/connect/login''))
               :: unit network"
  let ?np = "scripted [] (reply 200 ?ok) :: unit network"
  let ?rup = "\<lambda>a :: unit. ''Rs 10,000''"
  let ?good = "\<lparr>success = True, data = Some ?ok, error = None, login_url = None\<rparr>"
  let ?url = "\<lparr>success = True, data = None :: unit json option, error = None,
               login_url = Some ''https://kite.zerodha.com/connect/login''\<rparr>"
  have h: "has_session ?c" "nat (retry_count ?c) = 3" "length (posts ?t) = 0" "posts ?t = []"
    by (simp_all add: aenter_def new_client_def no_trace_def)
  have s5: "str_int 500 = ''500''" and s53: "str_int 503 = ''503''"
    by code_simp+
  have a5: "\<forall>j < 3. \<exists>r. ?n5 (0 + j) (http_request ?c init_payload) = Reply r \<and> status r \<noteq> 200"
    by (simp add: scripted_def reply_def)
  have a3: "\<forall>j < 2. \<exists>r. ?n3 (0 + j) (http_request ?c init_payload) = Reply r \<and> status r \<noteq> 200"
    by (auto simp: scripted_def reply_def dest!: less_2_cases)
  have b3: "?n3 (0 + 2) (http_request ?c init_payload) = Reply \<lparr>status = 200, json_result = Inr ?ok\<rparr>"
    by (simp add: scripted_def reply_def)
  have 1: "fst (request_login ?n5 ?c ?t)
             = Inr \<lparr>success = False, data = None,
                    error = Some ''Login request failed with status 500'', login_url = None\<rparr>"
    using status_discriminator [where c = ?c and t = ?t and net = ?n5
        and resp = "\<lparr>status = 500, json_result = Inr JNull\<rparr>"] h s5
    by (simp add: scripted_def reply_def MCPResponse_def)
  have 2: "fst (get_portfolio_recommendation ?rup ?n53 ?c 30 () ''SIP'' ''High'' ?t)
             = Inr \<lparr>success = False, data = None,
                    error = Some ''Portfolio request failed with status 503'', login_url = None\<rparr>"
    using status_discriminator [where c = ?c and t = ?t and net = ?n53 and rupees = ?rup
        and age = 30 and amount = "()" and plan_type = "''SIP''" and risk_level = "''High''"
        and resp' = "\<lparr>status = 503, json_result = Inr JNull\<rparr>"] h s53
    by (simp add: scripted_def reply_def MCPResponse_def)
  have 3: "fst (initialize_connection ?n3 ?c ?t) = Inr ?good"
    and p3: "posts (snd (snd (initialize_connection ?n3 ?c ?t)))
               = replicate 3 (http_request ?c init_payload)"
    using status_discriminator [where c = ?c and t = ?t and net = ?n3 and k = 2
        and resp'' = "\<lparr>status = 200, json_result = Inr ?ok\<rparr>" and v = ?ok] h a3 b3
    by (simp_all add: MCPResponse_def numeral_3_eq_3)
  have 4: "fst (initialize_connection ?n5 ?c ?t)
             = Inr \<lparr>success = False, data = None,
                    error = Some ''Failed to initialize MCP connection after all retries'',
                    login_url = None\<rparr>"
    and p4: "posts (snd (snd (initialize_connection ?n5 ?c ?t)))
               = replicate 3 (http_request ?c init_payload)"
    using status_discriminator [where c = ?c and t = ?t and net = ?n5] h a5
    by (simp_all add: MCPResponse_def)
  have 5: "\<exists>k' < 3. \<exists>r. ?n3 k' (http_request ?c init_payload) = Reply r \<and> status r = 200
             \<and> posts (snd (snd (initialize_connection ?n3 ?c ?t)))
                 = replicate (Suc k') (http_request ?c init_payload)"
  proof -
    note status_discriminator [where c = ?c and t = ?t and net = ?n3 and ?r1.0 = ?good,
        THEN conjunct2, THEN conjunct2, THEN conjunct2, THEN conjunct2, THEN conjunct2,
        THEN conjunct1]
    with 3 obtain k' r where "k' < nat (retry_count ?c)"
        "?n3 (length (posts ?t) + k') (http_request ?c init_payload) = Reply r" "status r = 200"
        "posts (snd (snd (initialize_connection ?n3 ?c ?t)))
           = posts ?t @ replicate (Suc k') (http_request ?c init_payload)"
      by auto
    with h show ?thesis
      by (intro exI [of _ k'] exI [of _ r]) simp
  qed
  have 6: "fst (request_login ?nl ?c ?t) = Inr ?url"
    by code_simp
  have 7: "\<exists>r. ?nl 0 (http_request ?c login_payload) = Reply r \<and> status r = 200"
    using status_discriminator [where c = ?c and t = ?t and net = ?nl and ?r2.0 = ?url] h 6
    by simp
  have 8: "fst (get_portfolio_recommendation ?rup ?np ?c 30 () ''SIP'' ''High'' ?t) = Inr ?good"
    by code_simp
  have 9: "\<exists>r. ?np 0 (http_request ?c (recommendation_payload ?rup 30 () ''SIP'' ''High'')) = Reply r
             \<and> status r = 200"
    using status_discriminator [where c = ?c and t = ?t and net = ?np and rupees = ?rup
        and age = 30 and amount = "()" and plan_type = "''SIP''" and risk_level = "''High''"
        and ?r3.0 = ?good] h 8
    by simp
  from 1 2 3 p3 4 p4 5 6 7 8 9 show ?thesis
    by blast
qed

text \<open>
  Claim C7, as stated, fails: two calls of \<open>request_login\<close> on one client post two
  requests with the request id 2, so the ids of the outbound calls are not strictly
  increasing.
\<close>

theorem request_ids_repeat:
  "(let net = scripted [] (reply 200 JNull);
        (r1, c1, t1) = request_login net (aenter new_client) (no_trace :: unit trace);
        (r2, c2, t2) = request_login net c1 t1
    in map (\<lambda>q. req_id (body q)) (posts t2) = [2, 2]
       \<and> \<not> sorted_wrt (<) (map (\<lambda>q. req_id (body q)) (posts t2)))"
  by code_simp

text \<open>
  Claim C7, amended. The request id is a constant of the operation: every request that
  \<open>initialize_connection\<close> posts (one per attempt, at most \<open>retry_count\<close> of them)
  carries id 1, the request of \<open>request_login\<close> carries id 2 and the request of
  \<open>get_portfolio_recommendation\<close> carries id 3; a client without a session posts
  nothing.
\<close>

theorem request_ids_fixed:
  "(\<exists>k \<le> nat (retry_count c).
      posts (snd (snd (initialize_connection net c t)))
        = posts t @ replicate k (http_request c init_payload))
   \<and> req_id (body (http_request c (init_payload :: 'f payload))) = 1
   \<and> posts (snd (snd (request_login net c t)))
        = posts t @ (if has_session c then [http_request c login_payload] else [])
   \<and> req_id (body (http_request c (login_payload :: 'f payload))) = 2
   \<and> posts (snd (snd (get_portfolio_recommendation rupees net c age amount plan_type risk_level t)))
        = posts t @ (if has_session c
                     then [http_request c (recommendation_payload rupees age amount plan_type risk_level)]
                     else [])
   \<and> req_id (body (http_request c (recommendation_payload rupees age amount plan_type risk_level))) = 3"
  using initialize_connection_posts [of c net t]
  by (simp add: request_login_posts get_portfolio_recommendation_posts http_request_def
      init_payload_def login_payload_def recommendation_payload_def)

section \<open>The login URL\<close>

text \<open>
  \<open>parse_login_url\<close> on a string: after the first marker \<^verbatim>\<open>"URL: "\<close> the piece
  up to the next marker is taken, cut at its first line break and stripped; without a
  marker the whole string is stripped.
\<close>

lemma parse_login_url_marked:
  assumes "partition_str ''URL: '' info = Some (pre, rest)"
  shows "parse_login_url (JStr info)
           = Inr (strip (before_first [CHR 0x0A] (before_first ''URL: '' rest)))"
  using assms
  by (simp add: parse_login_url_def str_in_def and_then_def split_str_item1 split_str_item0
      del: One_nat_def)

lemma parse_login_url_plain:
  assumes "\<not> sublist ''URL: '' info"
  shows "parse_login_url (JStr info) = Inr (strip info)"
  using assms by (simp add: parse_login_url_def str_in_sublist and_then_def)

lemma py_getitem_in: "py_getitem v k = Inr w \<Longrightarrow> py_in k v = Inr True"
  by (cases v) (auto split: option.splits)

lemma find_login_url_text:
  assumes "py_getitem result ''result'' = Inr inner"
    and "py_getitem inner ''content'' = Inr (JList (first # others))"
    and "py_get first ''text'' (JStr []) = Inr login_info"
    and "login_info = JStr info"
    and "sublist login_domain info"
  shows "find_login_url result = and_then (parse_login_url login_info) (\<lambda>u. Inr (Some u))"
  using assms py_getitem_in [OF assms(1)] py_getitem_in [OF assms(2)]
  by (simp add: find_login_url_def and_then_def str_in_sublist split: sum.splits)

lemma request_login_found:
  assumes "has_session c"
    and "net (length (posts t)) (http_request c login_payload) = Reply resp"
    and "status resp = 200"
    and "json_result resp = Inr result"
    and "find_login_url result = Inr (Some u)"
  shows "fst (request_login net c t) = Inr ((MCPResponse True)\<lparr>login_url := Some u\<rparr>)"
  using assms by (simp add: request_login_def except_Exception_def post_def and_then_def)

text \<open>
  Claim C4, as stated, fails: in the text below the substring between the first marker
  and the next line break is \<^verbatim>\<open>a URL: b\<close>, and the login URL that
  \<open>request_login\<close> returns is \<^verbatim>\<open>a\<close>, because the split at the marker ends the
  piece at the second marker.
\<close>

theorem login_url_stops_at_second_marker:
  "sublist login_domain (''https://kite.zerodha.com/connect/login URL: a URL: b'' @ [CHR 0x0A] @ ''c'')
   \<and> ''https://kite.zerodha.com/connect/login URL: a URL: b'' @ [CHR 0x0A] @ ''c''
       = ''https://kite.zerodha.com/connect/login '' @ ''URL: '' @ ''a URL: b'' @ [CHR 0x0A] @ ''c''
   \<and> \<not> sublist ''URL: '' ''https://kite.zerodha.com/connect/login ''
   \<and> CHR 0x0A \<notin> set ''a URL: b''
   \<and> fst (request_login
          (scripted [] (reply 200 (text_content
             (''https://kite.zerodha.com/connect/login URL: a URL: b'' @ [CHR 0x0A] @ ''c''))))
          (aenter new_client) (no_trace :: unit trace))
     = Inr \<lparr>success = True, data = None, error = None, login_url = Some ''a''\<rparr>
   \<and> ''a'' \<noteq> ''a URL: b''"
  by code_simp

text \<open>
  Claim C4, amended. Let \<open>request_login\<close> receive status 200 and a body whose
  \<^verbatim>\<open>result.content[0].text\<close> is a string \<open>info\<close> that contains the login-domain
  literal. If \<open>info\<close> contains the marker \<^verbatim>\<open>"URL: "\<close> (\<open>rest\<close> being the text
  after its first occurrence), the login URL is the part of \<open>rest\<close> up to the next
  marker or line break, whichever comes first, or all of \<open>rest\<close>, stripped of
  surrounding whitespace; otherwise it is \<open>info\<close> stripped of surrounding whitespace.
  The witness evaluates the input of the claim,
  \<^verbatim>\<open>"Please login. URL: https://kite.zerodha.com/connect/login?x=1\nmore text"\<close>, to
  exactly \<^verbatim>\<open>"https://kite.zerodha.com/connect/login?x=1"\<close>.
\<close>

theorem login_url_extraction:
  assumes "has_session c"
    and "net (length (posts t)) (http_request c login_payload) = Reply resp"
    and "status resp = 200"
    and "json_result resp = Inr result"
    and "py_getitem result ''result'' = Inr inner"
    and "py_getitem inner ''content'' = Inr (JList (first # others))"
    and "py_get first ''text'' (JStr []) = Inr (JStr info)"
    and "sublist login_domain info"
  shows "(partition_str ''URL: '' info = Some (pre, rest) \<longrightarrow>
            fst (request_login net c t)
              = Inr ((MCPResponse True)
                       \<lparr>login_url :=
                          Some (strip (before_first [CHR 0x0A] (before_first ''URL: '' rest)))\<rparr>))
       \<and> (\<not> sublist ''URL: '' info \<longrightarrow>
            fst (request_login net c t) = Inr ((MCPResponse True)\<lparr>login_url := Some (strip info)\<rparr>))"
proof (intro conjI impI)
  assume "partition_str ''URL: '' info = Some (pre, rest)"
  then have "find_login_url result
               = Inr (Some (strip (before_first [CHR 0x0A] (before_first ''URL: '' rest))))"
    using find_login_url_text [OF assms(5-7) refl assms(8)]
    by (simp add: parse_login_url_marked and_then_def)
  with assms(1-4) show "fst (request_login net c t)
              = Inr ((MCPResponse True)
                       \<lparr>login_url :=
                          Some (strip (before_first [CHR 0x0A] (before_first ''URL: '' rest)))\<rparr>)"
    by (rule request_login_found)
next
  assume "\<not> sublist ''URL: '' info"
  then have "find_login_url result = Inr (Some (strip info))"
    using find_login_url_text [OF assms(5-7) refl assms(8)]
    by (simp add: parse_login_url_plain and_then_def)
  with assms(1-4) show "fst (request_login net c t)
              = Inr ((MCPResponse True)\<lparr>login_url := Some (strip info)\<rparr>)"
    by (rule request_login_found)
qed

theorem login_url_extraction_witness:
  "fst (request_login
          (scripted [] (reply 200 (text_content
             (''Please login. URL: https://kite.zerodha.com/connect/login?x=1'' @ [CHR 0x0A]
                @ ''more text''))))
          (aenter new_client) (no_trace :: unit trace))
     = Inr \<lparr>success = True, data = None, error = None,
            login_url = Some ''https://kite.zerodha.com/connect/login?x=1''\<rparr>
   \<and> fst (request_login
          (scripted [] (reply 200 (text_content ''  https://kite.zerodha.com/connect/login?y=2 '')))
          (aenter new_client) (no_trace :: unit trace))
     = Inr \<lparr>success = True, data = None, error = None,
            login_url = Some ''https://kite.zerodha.com/connect/login?y=2''\<rparr>"
proof -
  let ?c = "aenter new_client"
  let ?t = "no_trace :: unit trace"
  let ?x = "''Please login. URL: https://kite.zerodha.com/connect/login?x=1'' @ [CHR 0x0A]
              @ ''more text''"
  let ?y = "''  https://kite.zerodha.com/connect/login?y=2 ''"
  have h: "has_session ?c"
    by (simp add: aenter_def)
  have dx: "sublist login_domain ?x"
    by code_simp
  have dy: "sublist login_domain ?y"
    by code_simp
  have px: "partition_str ''URL: '' ?x
              = Some (''Please login. '',
                      ''https://kite.zerodha.com/connect/login?x=1'' @ [CHR 0x0A] @ ''more text'')"
    by code_simp
  have sx: "strip (before_first [CHR 0x0A] (before_first ''URL: ''
              (''https://kite.zerodha.com/connect/login?x=1'' @ [CHR 0x0A] @ ''more text'')))
            = ''https://kite.zerodha.com/connect/login?x=1''"
    by code_simp
  have py: "\<not> sublist ''URL: '' ?y"
    by code_simp
  have sy: "strip ?y = ''https://kite.zerodha.com/connect/login?y=2''"
    by code_simp
  have 1: "fst (request_login (scripted [] (reply 200 (text_content ?x))) ?c ?t)
             = Inr \<lparr>success = True, data = None, error = None,
                    login_url = Some ''https://kite.zerodha.com/connect/login?x=1''\<rparr>"
    using login_url_extraction [where c = ?c and t = ?t
        and net = "scripted [] (reply 200 (text_content ?x))"
        and resp = "\<lparr>status = 200, json_result = Inr (text_content ?x)\<rparr>"
        and result = "text_content ?x"
        and inner = "JDict [(''content'', JList [JDict [(''type'', JStr ''text''),
                                                         (''text'', JStr ?x)]])]"
        and first = "JDict [(''type'', JStr ''text''), (''text'', JStr ?x)]" and others = "[]"
        and info = ?x and pre = "''Please login. ''"
        and rest = "''https://kite.zerodha.com/connect/login?x=1'' @ [CHR 0x0A] @ ''more text''"]
      h dx px sx
    by (simp add: scripted_def reply_def text_content_def MCPResponse_def)
  have 2: "fst (request_login (scripted [] (reply 200 (text_content ?y))) ?c ?t)
             = Inr \<lparr>success = True, data = None, error = None,
                    login_url = Some ''https://kite.zerodha.com/connect/login?y=2''\<rparr>"
    using login_url_extraction [where c = ?c and t = ?t
        and net = "scripted [] (reply 200 (text_content ?y))"
        and resp = "\<lparr>status = 200, json_result = Inr (text_content ?y)\<rparr>"
        and result = "text_content ?y"
        and inner = "JDict [(''content'', JList [JDict [(''type'', JStr ''text''),
                                                         (''text'', JStr ?y)]])]"
        and first = "JDict [(''type'', JStr ''text''), (''text'', JStr ?y)]" and others = "[]"
        and info = ?y]
      h dy py sy
    by (simp add: scripted_def reply_def text_content_def MCPResponse_def)
  from 1 2 show ?thesis
    by simp
qed

section \<open>Logout\<close>



end
